theory Spec2Isabelle
  imports Main "HOL-Library.Sublist"
begin

section \<open>C strings and fixed-size character buffers\<close>

text \<open>
  A C string is the run of characters in front of the first NUL. A Lua string may hold
  NUL characters; a C function that receives it as \<^verbatim>\<open>const char *\<close> sees its
  C-string view only.
\<close>

definition NUL :: char where
  "NUL = CHR 0x00"

definition c_str :: "string \<Rightarrow> string" where
  "c_str s = takeWhile (\<lambda>c. c \<noteq> NUL) s"

definition strlen :: "string \<Rightarrow> nat" where
  "strlen s = length (c_str s)"

text \<open>
  \<^verbatim>\<open>strcpy(dest, src)\<close> writes the characters of \<open>src\<close> and the terminating NUL to
  \<open>dest[0 .. strlen src]\<close>. C leaves a write past the end of \<open>dest\<close> undefined; the model
  returns \<open>None\<close> there.
\<close>

definition strcpy :: "char list \<Rightarrow> string \<Rightarrow> char list option" where
  "strcpy dest src =
     (if strlen src + 1 \<le> length dest
      then Some (c_str src @ NUL # drop (strlen src + 1) dest)
      else None)"

section \<open>The Lua runtime, as far as the launchers use it\<close>

text \<open>
  Tables live in a store and are passed around by address, since the launchers reach the
  module cache through two references (the global \<open>package\<close> and its field \<open>loaded\<close>).
  Numbers, userdata and coroutines are left out: the launchers create none, and every
  statement below that takes an argument from Lua code takes a string.
\<close>

type_synonym addr = nat

datatype lua_value =
    LNil
  | LBoolean bool
  | LString string
  | LTable addr
  | LCFunction string  \<comment> \<open>a C function, by its symbol name\<close>
  | LFunction string   \<comment> \<open>a loaded chunk, by its chunk name\<close>

type_synonym lua_table = "lua_value \<rightharpoonup> lua_value"

datatype lua_error =
    BadIndex      \<comment> \<open>a stack index that names no slot\<close>
  | NotATable     \<comment> \<open>indexing a value that is no table\<close>
  | NotAString    \<comment> \<open>\<^verbatim>\<open>luaL_checkstring\<close> on a value that is no string\<close>
  | NotCallable   \<comment> \<open>calling a value that is no function\<close>
  | NilKey        \<comment> \<open>storing under the key nil\<close>
  | RuntimeError string  \<comment> \<open>an error raised by Lua code\<close>

text \<open>Every call the C code makes into the Lua API is recorded, in order, in \<open>api_log\<close>.\<close>

datatype api_call =
    NewState
  | OpenLibs
  | GetGlobal string
  | GetField int string
  | Remove int
  | PushString string
  | PushBoolean int
  | NewLib "string list"
  | SetTable int
  | CheckString int
  | LoadBuffer string
  | Call int int

text \<open>
  The stack has room for \<open>slots\<close> values: the room the API guarantees to the C code that
  is running. Lua gives a fresh state, and every C function it calls, \<^verbatim>\<open>LUA_MINSTACK\<close> free
  slots (20, by the reference manual); C code that needs more has to ask with
  \<^verbatim>\<open>lua_checkstack\<close>, which neither launcher ever does. A push without a free slot is
  undefined in C. The model records it: the push sets \<open>stack_overrun\<close>, which nothing
  clears, and a state with \<open>stack_overrun\<close> says nothing about the program.
\<close>

definition LUA_MINSTACK :: nat where
  "LUA_MINSTACK = 20"

record lua_State =
  stack :: "lua_value list"             \<comment> \<open>index 1 is the head, the top is the last element\<close>
  slots :: nat                          \<comment> \<open>how many values the stack has room for\<close>
  stack_overrun :: bool                 \<comment> \<open>a value was pushed without a free slot\<close>
  globals :: "string \<rightharpoonup> lua_value"
  heap :: "lua_table list"              \<comment> \<open>the table at address \<open>a\<close> is \<open>heap ! a\<close>\<close>
  loaded_cache :: "addr option"         \<comment> \<open>the table \<^verbatim>\<open>require\<close> consults\<close>
  api_log :: "api_call list"

text \<open>
  The outcome of an API call that can raise a Lua error. The launchers never run in
  protected mode, so a raised error reaches the panic handler and the process aborts.
\<close>

datatype 'a lua_result = Ok 'a | Raise lua_error lua_State

definition bind :: "'a lua_result \<Rightarrow> ('a \<Rightarrow> 'b lua_result) \<Rightarrow> 'b lua_result" where
  "bind m f = (case m of Ok x \<Rightarrow> f x | Raise e L \<Rightarrow> Raise e L)"

definition logged :: "lua_State \<Rightarrow> api_call \<Rightarrow> lua_State" where
  "logged L c = L\<lparr>api_log := api_log L @ [c]\<rparr>"

definition push :: "lua_State \<Rightarrow> lua_value \<Rightarrow> lua_State" where
  "push L v =
     L\<lparr>stack := stack L @ [v],
       stack_overrun := stack_overrun L \<or> slots L \<le> length (stack L)\<rparr>"

text \<open>A positive index counts from the bottom of the stack, a negative one from the top.\<close>

definition index2pos :: "lua_State \<Rightarrow> int \<Rightarrow> nat option" where
  "index2pos L idx =
     (let n = int (length (stack L))
      in if 1 \<le> idx \<and> idx \<le> n then Some (nat (idx - 1))
         else if idx < 0 \<and> - idx \<le> n then Some (nat (n + idx))
         else None)"

definition table_at :: "lua_State \<Rightarrow> addr \<rightharpoonup> lua_table" where
  "table_at L a = (if a < length (heap L) then Some (heap L ! a) else None)"

definition rawget :: "lua_table \<Rightarrow> lua_value \<Rightarrow> lua_value" where
  "rawget t k = (case t k of None \<Rightarrow> LNil | Some v \<Rightarrow> v)"

definition rawset :: "lua_table \<Rightarrow> lua_value \<Rightarrow> lua_value \<Rightarrow> lua_table" where
  "rawset t k v = t(k := (if v = LNil then None else Some v))"

definition luaL_newstate :: lua_State where
  "luaL_newstate =
     \<lparr>stack = [], slots = LUA_MINSTACK, stack_overrun = False, globals = Map.empty,
      heap = [], loaded_cache = None, api_log = [NewState]\<rparr>"

text \<open>
  \<^verbatim>\<open>luaL_openlibs\<close> creates the module cache and the \<open>package\<close> library, whose field
  \<open>loaded\<close> refers to the cache, and binds the global \<open>package\<close>. The other standard
  libraries are not represented.
\<close>

definition luaL_openlibs :: "lua_State \<Rightarrow> lua_State" where
  "luaL_openlibs L =
     (let l = length (heap L); p = Suc l
      in (logged L OpenLibs)
           \<lparr>globals := (globals L)(''package'' \<mapsto> LTable p),
            heap := heap L @ [[LString ''package'' \<mapsto> LTable p], [LString ''loaded'' \<mapsto> LTable l]],
            loaded_cache := Some l\<rparr>)"

definition lua_getglobal :: "lua_State \<Rightarrow> string \<Rightarrow> lua_State" where
  "lua_getglobal L name =
     push (logged L (GetGlobal name)) (case globals L name of None \<Rightarrow> LNil | Some v \<Rightarrow> v)"

definition lua_getfield :: "lua_State \<Rightarrow> int \<Rightarrow> string \<Rightarrow> lua_State lua_result" where
  "lua_getfield L idx k =
     (let L' = logged L (GetField idx k)
      in case index2pos L idx of
           None \<Rightarrow> Raise BadIndex L'
         | Some i \<Rightarrow>
             (case stack L ! i of
                LTable a \<Rightarrow>
                  (case table_at L a of
                     None \<Rightarrow> Raise NotATable L'
                   | Some t \<Rightarrow> Ok (push L' (rawget t (LString k))))
              | _ \<Rightarrow> Raise NotATable L'))"

definition lua_remove :: "lua_State \<Rightarrow> int \<Rightarrow> lua_State lua_result" where
  "lua_remove L idx =
     (let L' = logged L (Remove idx)
      in case index2pos L idx of
           None \<Rightarrow> Raise BadIndex L'
         | Some i \<Rightarrow> Ok (L'\<lparr>stack := take i (stack L) @ drop (Suc i) (stack L)\<rparr>))"

definition lua_pushstring :: "lua_State \<Rightarrow> string \<Rightarrow> lua_State" where
  "lua_pushstring L s = push (logged L (PushString s)) (LString s)"

definition lua_pushboolean :: "lua_State \<Rightarrow> int \<Rightarrow> lua_State" where
  "lua_pushboolean L b = push (logged L (PushBoolean b)) (LBoolean (b \<noteq> 0))"

text \<open>A \<^verbatim>\<open>luaL_Reg\<close> array: capability name and the C function behind it, without the sentinel.\<close>

type_synonym luaL_Reg = "(string \<times> string) list"

definition lib_table :: "luaL_Reg \<Rightarrow> lua_table" where
  "lib_table reg = map_of (map (\<lambda>(name, func). (LString name, LCFunction func)) reg)"

text \<open>
  \<^verbatim>\<open>luaL_newlib\<close> pushes the new table and then stores the functions one at a time, each
  through one more slot above the table: a table with entries takes two free slots, an
  empty one takes one.
\<close>

definition luaL_newlib :: "lua_State \<Rightarrow> luaL_Reg \<Rightarrow> lua_State" where
  "luaL_newlib L reg =
     (push (logged L (NewLib (map fst reg))) (LTable (length (heap L))))
       \<lparr>heap := heap L @ [lib_table reg],
        stack_overrun := stack_overrun L
          \<or> slots L < length (stack L) + (if reg = [] then 1 else 2)\<rparr>"

text \<open>
  \<^verbatim>\<open>lua_settable(L, idx)\<close>: \<open>t[k] = v\<close> with \<open>t\<close> at \<open>idx\<close>, \<open>v\<close> on top and \<open>k\<close> below it;
  pops both.
\<close>

definition lua_settable :: "lua_State \<Rightarrow> int \<Rightarrow> lua_State lua_result" where
  "lua_settable L idx =
     (let L' = logged L (SetTable idx); n = length (stack L)
      in case index2pos L idx of
           None \<Rightarrow> Raise BadIndex L'
         | Some i \<Rightarrow>
             if n < 2 then Raise BadIndex L'
             else
               (case stack L ! i of
                  LTable a \<Rightarrow>
                    (case table_at L a of
                       None \<Rightarrow> Raise NotATable L'
                     | Some t \<Rightarrow>
                         (let k = stack L ! (n - 2); v = stack L ! (n - 1)
                          in if k = LNil then Raise NilKey L'
                             else Ok (L'\<lparr>stack := take (n - 2) (stack L),
                                         heap := (heap L)[a := rawset t k v]\<rparr>)))
                | _ \<Rightarrow> Raise NotATable L'))"

text \<open>
  \<^verbatim>\<open>luaL_checkstring\<close> hands the C-string view of a string argument to the caller and
  raises an argument error on every other value of the model, an absent argument included.
\<close>

definition luaL_checkstring :: "lua_State \<Rightarrow> int \<Rightarrow> (string \<times> lua_State) lua_result" where
  "luaL_checkstring L idx =
     (let L' = logged L (CheckString idx)
      in case index2pos L idx of
           None \<Rightarrow> Raise NotAString L'
         | Some i \<Rightarrow>
             (case stack L ! i of
                LString s \<Rightarrow> Ok (c_str s, L')
              | _ \<Rightarrow> Raise NotAString L'))"

text \<open>
  What the runtime does with the embedded program is not part of the launchers. It is a
  parameter: the status codes of \<^verbatim>\<open>lua.h\<close>, what loading a buffer yields (a status and the
  value left on the stack: the compiled chunk, or the error message), and what calling a
  function value does.
\<close>

record lua_rt =
  LUA_OK :: int
  LUA_ERRSYNTAX :: int
  LUA_ERRMEM :: int
  lua_load :: "string \<Rightarrow> string \<Rightarrow> int \<times> lua_value"
  run_function ::
    "lua_value \<Rightarrow> lua_value list \<Rightarrow> lua_State \<Rightarrow> lua_error + (lua_State \<times> lua_value list)"

definition luaL_loadbuffer ::
  "lua_rt \<Rightarrow> lua_State \<Rightarrow> string \<Rightarrow> nat \<Rightarrow> string \<Rightarrow> int \<times> lua_State" where
  "luaL_loadbuffer rt L buff sz name =
     (case lua_load rt (take sz buff) name of
        (status, v) \<Rightarrow> (status, push (logged L (LoadBuffer name)) v))"

fun is_function :: "lua_value \<Rightarrow> bool" where
  "is_function (LCFunction f) = True"
| "is_function (LFunction c) = True"
| "is_function v = False"

definition adjust_results :: "int \<Rightarrow> lua_value list \<Rightarrow> lua_value list" where
  "adjust_results nresults rs =
     (if nresults < 0 then rs else take (nat nresults) (rs @ replicate (nat nresults) LNil))"

text \<open>
  \<^verbatim>\<open>lua_call(L, nargs, nresults)\<close> pops the arguments and the function below them, runs
  the function and pushes its results; a fixed number of results needs that much room.
  Calling a value that is no function raises.
\<close>

definition lua_call :: "lua_rt \<Rightarrow> lua_State \<Rightarrow> int \<Rightarrow> int \<Rightarrow> lua_State lua_result" where
  "lua_call rt L nargs nresults =
     (let L' = logged L (Call nargs nresults); n = length (stack L)
      in if nargs < 0 \<or> n < nat nargs + 1 then Raise BadIndex L'
         else
           (let base = n - nat nargs - 1;
                f = stack L ! base;
                args = drop (Suc base) (stack L)
            in if is_function f
               then (case run_function rt f args (L'\<lparr>stack := take base (stack L)\<rparr>) of
                       Inl e \<Rightarrow> Raise e L'
                     | Inr (L'', rs) \<Rightarrow>
                         Ok (L''\<lparr>stack := take base (stack L) @ adjust_results nresults rs,
                                  slots := slots L,
                                  stack_overrun := stack_overrun L''
                                    \<or> (0 \<le> nresults \<and> slots L < base + nat nresults),
                                  api_log := api_log L'\<rparr>))
               else Raise NotCallable L'))"

text \<open>
  The module import of Lua code: \<^verbatim>\<open>require name\<close> answers from the module cache when the
  cache holds a value under \<open>name\<close>. (On a miss it runs the searchers, which the launchers
  do not configure; the model answers \<open>None\<close>.)
\<close>

definition require :: "lua_State \<Rightarrow> string \<Rightarrow> lua_value option" where
  "require L name =
     (case loaded_cache L of
        None \<Rightarrow> None
      | Some l \<Rightarrow> (case table_at L l of None \<Rightarrow> None | Some t \<Rightarrow> t (LString name)))"

text \<open>The table that the C code reaches as \<open>package.loaded\<close>.\<close>

definition package_loaded :: "lua_State \<Rightarrow> addr option" where
  "package_loaded L =
     (case globals L ''package'' of
        Some (LTable p) \<Rightarrow>
          (case table_at L p of
             Some t \<Rightarrow>
               (case t (LString ''loaded'') of
                  Some (LTable l) \<Rightarrow> (if l < length (heap L) then Some l else None)
                | _ \<Rightarrow> None)
           | None \<Rightarrow> None)
      | _ \<Rightarrow> None)"

text \<open>The values a C function hands back: the topmost \<open>n\<close> stack slots.\<close>

definition results :: "lua_State \<times> int \<Rightarrow> lua_value list" where
  "results r = (case r of (L, n) \<Rightarrow> drop (length (stack L) - nat n) (stack L))"

type_synonym lua_CFunction = "lua_State \<Rightarrow> (lua_State \<times> int) lua_result"

section \<open>cheveret.c: the capability registry\<close>

definition chevlib :: luaL_Reg where
  "chevlib =
     [(''get_is_devel'', ''get_is_devel_lua''),
      (''get_app_id'', ''get_app_id_lua''),
      (''get_app_ver'', ''get_app_ver_lua''),
      (''getcwd'', ''getcwd_lua''),
      (''forkcdexec'', ''forkcdexec_lua'')]"

definition luaopen_chevlib :: lua_CFunction where
  "luaopen_chevlib L = Ok (luaL_newlib L chevlib, 1)"

text \<open>
  \<^verbatim>\<open>lua_prepare(L, f, name)\<close>, cheveret.c lines 105 to 118. The value \<open>f\<close> returns is
  ignored, as in the source.
\<close>

definition lua_prepare :: "lua_State \<Rightarrow> lua_CFunction \<Rightarrow> string \<Rightarrow> lua_State lua_result" where
  "lua_prepare L f name =
     bind (lua_getfield (lua_getglobal L ''package'') (- 1) ''loaded'') (\<lambda>L.
     bind (lua_remove L (- 2)) (\<lambda>L.
     bind (f (lua_pushstring L name)) (\<lambda>(L, _).
     bind (lua_settable L (- 3)) (\<lambda>L.
     lua_remove L (- 1)))))"


text \<open>
  Modelled from the spec: \<^verbatim>\<open>luaopen_inotify\<close> is only declared in cheveret.c (line 14); its
  body is not among the sources. The spec calls what it installs ``a separate
  filesystem-notification capability table'': the model builds one table from the
  module's functions, which are a parameter.
\<close>

definition luaopen_inotify :: "luaL_Reg \<Rightarrow> lua_CFunction" where
  "luaopen_inotify inotifylib L = Ok (luaL_newlib L inotifylib, 1)"

section \<open>Capability functions shared by both launchers\<close>

text \<open>\<open>DEVEL\<close> is the build flag tested by \<^verbatim>\<open>#ifdef DEVEL\<close>.\<close>

definition get_is_devel_lua :: "bool \<Rightarrow> lua_CFunction" where
  "get_is_devel_lua DEVEL L =
     Ok (if DEVEL then lua_pushboolean L 1 else lua_pushboolean L 0, 1)"

definition VERSION :: string where
  "VERSION = ''0.1.0-alpha''"

definition get_app_ver_lua :: lua_CFunction where
  "get_app_ver_lua L = Ok (lua_pushstring L VERSION, 1)"

section \<open>The operating system, as seen by one process\<close>

datatype syscall =
    SysFork
  | SysChdir string
  | SysExecv string "string list"
  | SysExit int
  | SysGetcwd nat

record proc =
  cwd :: string
  syscalls :: "syscall list"     \<comment> \<open>the system calls this process has made, in order\<close>

text \<open>
  How the kernel answers is a parameter: what \<^verbatim>\<open>fork\<close> returns in the process at hand
  (0 in the child, the child's pid in the parent, -1 when no child was made), where a
  \<^verbatim>\<open>chdir\<close> from a directory to a path leads (\<open>None\<close> when it fails), whether an \<^verbatim>\<open>execv\<close>
  succeeds, and whether the working directory can be read.
\<close>

record os =
  fork_returns :: int
  chdir_to :: "string \<Rightarrow> string \<Rightarrow> string option"
  execv_ok :: "string \<Rightarrow> string list \<Rightarrow> bool"
  getcwd_ok :: bool

definition called :: "proc \<Rightarrow> syscall \<Rightarrow> proc" where
  "called p c = p\<lparr>syscalls := syscalls p @ [c]\<rparr>"

definition fork :: "os \<Rightarrow> proc \<Rightarrow> int \<times> proc" where
  "fork k p = (fork_returns k, called p SysFork)"

definition chdir :: "os \<Rightarrow> proc \<Rightarrow> string \<Rightarrow> int \<times> proc" where
  "chdir k p path =
     (case chdir_to k (cwd p) path of
        None \<Rightarrow> (- 1, called p (SysChdir path))
      | Some d \<Rightarrow> (0, (called p (SysChdir path))\<lparr>cwd := d\<rparr>))"

text \<open>\<^verbatim>\<open>execv\<close> returns only when it fails; \<open>True\<close> stands for the replaced process image.\<close>

definition execv :: "os \<Rightarrow> proc \<Rightarrow> string \<Rightarrow> string list \<Rightarrow> bool \<times> proc" where
  "execv k p path args = (execv_ok k path args, called p (SysExecv path args))"

text \<open>
  \<^verbatim>\<open>getcwd(buf, sz)\<close> fails when the directory cannot be read or when the path and its
  NUL do not fit in \<open>sz\<close> bytes; otherwise \<open>buf\<close> holds the path.
\<close>

definition getcwd :: "os \<Rightarrow> proc \<Rightarrow> nat \<Rightarrow> string option \<times> proc" where
  "getcwd k p sz =
     (if getcwd_ok k \<and> strlen (cwd p) + 1 \<le> sz then Some (c_str (cwd p)) else None,
      called p (SysGetcwd sz))"

text \<open>How a capability function that enters the kernel ends in the process at hand.\<close>

datatype flow =
    Return proc lua_State int        \<comment> \<open>back in the interpreter, with so many results\<close>
  | Error lua_error lua_State        \<comment> \<open>a Lua error was raised\<close>
  | Exited proc int                  \<comment> \<open>the process ended through \<^verbatim>\<open>exit\<close>\<close>
  | Replaced proc string "string list"  \<comment> \<open>the process image was replaced\<close>
  | Overflow proc                    \<comment> \<open>a write past the end of a buffer: undefined in C\<close>

definition exit_call :: "proc \<Rightarrow> int \<Rightarrow> flow" where
  "exit_call p n = Exited (called p (SysExit n)) n"

section \<open>cheveret.c\<close>

definition cheveret_get_app_id_lua :: "bool \<Rightarrow> lua_CFunction" where
  "cheveret_get_app_id_lua DEVEL L =
     Ok (if DEVEL then lua_pushstring L ''ca.vlacroix.Cheveret.Devel''
         else lua_pushstring L ''ca.vlacroix.Cheveret'', 1)"

text \<open>\<open>BUFSIZ\<close> is the macro of \<^verbatim>\<open>stdio.h\<close>, a parameter here.\<close>

definition getcwd_lua :: "nat \<Rightarrow> os \<Rightarrow> proc \<Rightarrow> lua_State \<Rightarrow> flow" where
  "getcwd_lua BUFSIZ k p L =
     (case getcwd k p (BUFSIZ - 1) of
        (None, p) \<Rightarrow> Return p L 0
      | (Some path, p) \<Rightarrow> Return p (lua_pushstring L path) 1)"

definition forkcdexec_lua :: "nat \<Rightarrow> os \<Rightarrow> proc \<Rightarrow> lua_State \<Rightarrow> flow" where
  "forkcdexec_lua BUFSIZ k p L =
     (let program = replicate BUFSIZ NUL
      in case luaL_checkstring L 1 of
           Raise e L \<Rightarrow> Error e L
         | Ok (dir, L) \<Rightarrow>
             (case luaL_checkstring L 2 of
                Raise e L \<Rightarrow> Error e L
              | Ok (bin, L) \<Rightarrow>
                  (case fork k p of
                     (pid, p) \<Rightarrow>
                       if pid = 0 then
                         (case strcpy program bin of
                            None \<Rightarrow> Overflow p
                          | Some program \<Rightarrow>
                              (let argv = [''/usr/bin/sh'', ''-c'', c_str program]
                               in case chdir k p dir of
                                    (r, p) \<Rightarrow>
                                      if r = 0 then
                                        (case execv k p ''/usr/bin/sh'' argv of
                                           (replaced, p) \<Rightarrow>
                                             if replaced then Replaced p ''/usr/bin/sh'' argv
                                             else exit_call p 0)
                                      else exit_call p 0))
                       else Return p L 0)))"

text \<open>
  How a launcher ends: \<^verbatim>\<open>main\<close> returns, or an unprotected Lua error aborts the process.
  \<open>stderr\<close> is what the launcher itself writes (the line that the panic handler of the
  Lua library prints before it aborts is not part of it).
\<close>

datatype ending = Exit int | Abort lua_error

record run =
  ending :: ending
  stderr :: string
  lua :: lua_State

text \<open>The exit code a parent process reads: the low eight bits of what \<^verbatim>\<open>main\<close> returns.\<close>

fun exit_code :: "ending \<Rightarrow> int option" where
  "exit_code (Exit n) = Some (n mod 256)"
| "exit_code (Abort e) = None"

text \<open>
  \<^verbatim>\<open>main\<close>, cheveret.c lines 123 to 148. The embedded blob \<^verbatim>\<open>_binary_cheveret_lc_start\<close> is
  the parameter \<open>cheveret_lc\<close>. The \<^verbatim>\<open>switch\<close> has no \<^verbatim>\<open>default\<close>: a status that matches no
  case leaves it and reaches \<^verbatim>\<open>lua_call\<close>. (\<^verbatim>\<open>luaL_checkstring\<close> never returns a null
  pointer, so the test of \<open>message\<close> always passes.)
\<close>

definition cheveret_main :: "lua_rt \<Rightarrow> luaL_Reg \<Rightarrow> string \<Rightarrow> int \<Rightarrow> string list \<Rightarrow> run" where
  "cheveret_main rt inotifylib cheveret_lc argc argv =
     (let cheveret_lc_len = length cheveret_lc;
          L = luaL_openlibs luaL_newstate
      in case bind (lua_prepare L luaopen_chevlib ''chevlib'') (\<lambda>L.
              lua_prepare L (luaopen_inotify inotifylib) ''inotify'') of
           Raise e L \<Rightarrow> \<lparr>ending = Abort e, stderr = [], lua = L\<rparr>
         | Ok L \<Rightarrow>
             (case luaL_loadbuffer rt L cheveret_lc cheveret_lc_len ''cheveret'' of
                (status, L) \<Rightarrow>
                  if status = LUA_ERRSYNTAX rt then
                    (let err = ''Failed to load Cheveret: embedded binary is malformed.\<newline>''
                     in case luaL_checkstring L (- 1) of
                          Raise e L \<Rightarrow> \<lparr>ending = Abort e, stderr = err, lua = L\<rparr>
                        | Ok (message, L) \<Rightarrow>
                            \<lparr>ending = Exit 1, stderr = err @ message @ ''\<newline>'', lua = L\<rparr>)
                  else if status = LUA_ERRMEM rt then
                    \<lparr>ending = Exit 2,
                     stderr = ''Failed to load Cheveret: could not allocate memory.\<newline>'',
                     lua = L\<rparr>
                  else
                    (case lua_call rt L 0 0 of
                       Raise e L \<Rightarrow> \<lparr>ending = Abort e, stderr = [], lua = L\<rparr>
                     | Ok L \<Rightarrow> \<lparr>ending = Exit 0, stderr = [], lua = L\<rparr>)))"

section \<open>paper.c\<close>

definition paper_get_app_id_lua :: "bool \<Rightarrow> lua_CFunction" where
  "paper_get_app_id_lua DEVEL L =
     Ok (if DEVEL then lua_pushstring L ''ca.vlacroix.Paper.Devel''
         else lua_pushstring L ''ca.vlacroix.Paper'', 1)"

text \<open>The file-scope variables \<^verbatim>\<open>argc\<close> and \<^verbatim>\<open>argv\<close>, paper.c lines 55 and 56.\<close>

record statics =
  argc :: int
  argv :: "string list"

text \<open>
  The loop of \<^verbatim>\<open>get_cli_args_lua\<close>. Reading \<open>argv[i]\<close> outside the vector has no defined
  value in the model: \<open>None\<close>.
\<close>

function get_cli_args_loop :: "statics \<Rightarrow> int \<Rightarrow> lua_State \<Rightarrow> lua_State option" where
  "get_cli_args_loop g i L =
     (if i < argc g then
        (if 0 \<le> i \<and> nat i < length (argv g)
         then get_cli_args_loop g (i + 1) (lua_pushstring L (argv g ! nat i))
         else None)
      else Some L)"
  by pat_completeness auto
termination
  by (relation "measure (\<lambda>(g, i, L). nat (argc g - i))") auto

definition get_cli_args_lua :: "statics \<Rightarrow> lua_State \<Rightarrow> (lua_State \<times> int) option" where
  "get_cli_args_lua g L =
     (case get_cli_args_loop g 0 L of
        None \<Rightarrow> None
      | Some L \<Rightarrow> Some (L, argc g))"

definition forkexec_lua :: "nat \<Rightarrow> os \<Rightarrow> proc \<Rightarrow> lua_State \<Rightarrow> flow" where
  "forkexec_lua BUFSIZ k p L =
     (let program = replicate BUFSIZ NUL
      in case luaL_checkstring L 1 of
           Raise e L \<Rightarrow> Error e L
         | Ok (cmd, L) \<Rightarrow>
             (case fork k p of
                (pid, p) \<Rightarrow>
                  if pid = 0 then
                    (case strcpy program cmd of
                       None \<Rightarrow> Overflow p
                     | Some program \<Rightarrow>
                         (let args = [''/usr/bin/sh'', ''-c'', c_str program]
                          in case execv k p ''/usr/bin/sh'' args of
                               (replaced, p) \<Rightarrow>
                                 if replaced then Replaced p ''/usr/bin/sh'' args
                                 else exit_call p 0))
                  else Return p L 0))"

definition paperlib :: luaL_Reg where
  "paperlib =
     [(''get_is_devel'', ''get_is_devel_lua''),
      (''get_app_id'', ''get_app_id_lua''),
      (''get_app_ver'', ''get_app_ver_lua''),
      (''get_cli_args'', ''get_cli_args_lua''),
      (''forkexec'', ''forkexec_lua'')]"

text \<open>
  Lines 116 to 122 of \<^verbatim>\<open>main\<close>: paper.c has no \<^verbatim>\<open>lua_prepare\<close> and registers its table in
  place, with the same seven calls.
\<close>

definition paper_register :: "lua_State \<Rightarrow> lua_State lua_result" where
  "paper_register L =
     bind (lua_getfield (lua_getglobal L ''package'') (- 1) ''loaded'') (\<lambda>L.
     bind (lua_remove L (- 2)) (\<lambda>L.
     bind (lua_settable (luaL_newlib (lua_pushstring L ''paperlib'') paperlib) (- 3)) (\<lambda>L.
     lua_remove L (- 1))))"

text \<open>
  \<^verbatim>\<open>main\<close>, paper.c lines 104 to 143; its \<^verbatim>\<open>switch\<close> has a \<^verbatim>\<open>default\<close>. The embedded blob
  \<^verbatim>\<open>_binary_paper_bytecode_start\<close> is the parameter \<open>paper_bytecode\<close>.
\<close>

definition paper_main :: "lua_rt \<Rightarrow> string \<Rightarrow> int \<Rightarrow> string list \<Rightarrow> statics \<times> run" where
  "paper_main rt paper_bytecode argc_in argv_in =
     (let paper_bytecode_len = length paper_bytecode;
          g = \<lparr>argc = argc_in, argv = argv_in\<rparr>;
          L = luaL_openlibs luaL_newstate
      in (g,
          case paper_register L of
            Raise e L \<Rightarrow> \<lparr>ending = Abort e, stderr = [], lua = L\<rparr>
          | Ok L \<Rightarrow>
              (case luaL_loadbuffer rt L paper_bytecode paper_bytecode_len ''paper'' of
                 (status, L) \<Rightarrow>
                   if status = LUA_ERRSYNTAX rt then
                     (let err = ''Failed to load Paper: embedded binary is malformed.\<newline>''
                      in case luaL_checkstring L (- 1) of
                           Raise e L \<Rightarrow> \<lparr>ending = Abort e, stderr = err, lua = L\<rparr>
                         | Ok (message, L) \<Rightarrow>
                             \<lparr>ending = Exit 1, stderr = err @ message @ ''\<newline>'', lua = L\<rparr>)
                   else if status = LUA_ERRMEM rt then
                     \<lparr>ending = Exit 2,
                      stderr = ''Failed to load Paper: could not allocate memory.\<newline>'',
                      lua = L\<rparr>
                   else if status = LUA_OK rt then
                     (case lua_call rt L 0 0 of
                        Raise e L \<Rightarrow> \<lparr>ending = Abort e, stderr = [], lua = L\<rparr>
                      | Ok L \<Rightarrow> \<lparr>ending = Exit 0, stderr = [], lua = L\<rparr>)
                   else
                     \<lparr>ending = Exit (- 1),
                      stderr = ''Failed to load Paper: an unhandled error ocurred.\<newline>'',
                      lua = L\<rparr>)))"

section \<open>Reading outcomes\<close>

text \<open>The process state a capability function leaves behind, where there is one.\<close>

fun proc_of :: "flow \<Rightarrow> proc option" where
  "proc_of (Return p L n) = Some p"
| "proc_of (Error e L) = None"
| "proc_of (Exited p n) = Some p"
| "proc_of (Replaced p path args) = Some p"
| "proc_of (Overflow p) = Some p"

text \<open>The system calls a process made on top of those of \<open>p\<close>.\<close>

definition new_syscalls :: "proc \<Rightarrow> proc \<Rightarrow> syscall list" where
  "new_syscalls p p' = drop (length (syscalls p)) (syscalls p')"

fun is_execv :: "syscall \<Rightarrow> bool" where
  "is_execv (SysExecv path args) = True"
| "is_execv c = False"

text \<open>
  \<open>precedes a b log\<close>: the call \<open>a\<close> is in the log, in front of the first \<open>b\<close> if there is
  a \<open>b\<close> at all.
\<close>

definition precedes :: "api_call \<Rightarrow> api_call \<Rightarrow> api_call list \<Rightarrow> bool" where
  "precedes a b log = (a \<in> set (takeWhile (\<lambda>c. c \<noteq> b) log))"

fun is_call :: "api_call \<Rightarrow> bool" where
  "is_call (Call nargs nresults) = True"
| "is_call c = False"

text \<open>The seven API calls of one registration: \<^verbatim>\<open>lua_prepare\<close>, or lines 116 to 122 of paper.c.\<close>

definition boot_log :: "string \<Rightarrow> luaL_Reg \<Rightarrow> api_call list" where
  "boot_log name reg =
     [GetGlobal ''package'', GetField (- 1) ''loaded'', Remove (- 2),
      PushString name, NewLib (map fst reg), SetTable (- 3), Remove (- 1)]"

section \<open>Sample inputs\<close>

text \<open>
  A runtime with the status codes of Lua 5.3 (\<^verbatim>\<open>LUA_ERRGCMM\<close> is 5 there). Its loader accepts
  the blob \<open>''ok''\<close>, runs out of memory on \<open>''mem''\<close>, fails in a finalizer on \<open>''gc''\<close> and
  rejects every other blob as malformed. The loaded program does nothing.
\<close>

definition sample_rt :: lua_rt where
  "sample_rt =
     \<lparr>LUA_OK = 0, LUA_ERRSYNTAX = 3, LUA_ERRMEM = 4,
      lua_load = (\<lambda>buff name.
        if buff = ''ok'' then (0, LFunction name)
        else if buff = ''mem'' then (4, LString ''not enough memory'')
        else if buff = ''gc'' then (5, LString ''error in __gc metamethod'')
        else (3, LString (name @ '': bad binary format''))),
      run_function = (\<lambda>f args L. Inr (L, []))\<rparr>"

text \<open>A kernel that can enter \<open>/tmp\<close> only and cannot start the shell.\<close>

definition sample_os :: "int \<Rightarrow> os" where
  "sample_os pid =
     \<lparr>fork_returns = pid,
      chdir_to = (\<lambda>from path. if path = ''/tmp'' then Some ''/tmp'' else None),
      execv_ok = (\<lambda>path args. False),
      getcwd_ok = True\<rparr>"

definition sample_proc :: proc where
  "sample_proc = \<lparr>cwd = ''/home/user'', syscalls = []\<rparr>"

text \<open>
  The interpreter state in which a C function that Lua calls finds its arguments, with
  \<^verbatim>\<open>LUA_MINSTACK\<close> free slots above them.
\<close>

definition called_with :: "lua_value list \<Rightarrow> lua_State" where
  "called_with args =
     (luaL_openlibs luaL_newstate)\<lparr>stack := args, slots := length args + LUA_MINSTACK\<rparr>"

section \<open>C strings: basic facts\<close>

lemma c_str_no_NUL: "NUL \<notin> set (c_str s)"
  by (auto simp: c_str_def dest: set_takeWhileD)

lemma c_str_idem: "c_str (c_str s) = c_str s"
  by (simp add: c_str_def)

lemma c_str_id: "NUL \<notin> set s \<Longrightarrow> c_str s = s"
  by (auto simp: c_str_def takeWhile_eq_all_conv)

lemma strlen_c_str: "strlen (c_str s) = strlen s"
  by (simp add: strlen_def c_str_idem)

lemma c_str_terminated: "c_str (c_str s @ NUL # r) = c_str s"
proof -
  have "\<forall>c \<in> set (c_str s). c \<noteq> NUL"
    using c_str_no_NUL [of s] by auto
  then show ?thesis
    by (simp add: c_str_def takeWhile_append2 del: takeWhile_idem)
qed

lemma strcpy_fits:
  "strlen src < length dest \<Longrightarrow>
   strcpy dest src = Some (c_str src @ NUL # drop (strlen src + 1) dest)"
  by (simp add: strcpy_def)

lemma strcpy_overflow: "length dest \<le> strlen src \<Longrightarrow> strcpy dest src = None"
  by (simp add: strcpy_def)

section \<open>The spawning functions, case by case\<close>

lemma checkstring_arg1:
  "stack L = LString s # rest \<Longrightarrow>
   luaL_checkstring L 1 = Ok (c_str s, logged L (CheckString 1))"
  by (simp add: luaL_checkstring_def index2pos_def Let_def)

lemma checkstring_arg2:
  "stack L = v # LString s # rest \<Longrightarrow>
   luaL_checkstring L 2 = Ok (c_str s, logged L (CheckString 2))"
  by (simp add: luaL_checkstring_def index2pos_def Let_def)

lemma stack_logged: "stack (logged L c) = stack L"
  by (simp add: logged_def)

lemma forkexec_child:
  assumes "stack L = LString cmd # rest" "fork_returns k = 0" "strlen cmd < BUFSIZ"
  shows "forkexec_lua BUFSIZ k p L =
    (let sh = ''/usr/bin/sh''; args = [sh, ''-c'', c_str cmd]
     in if execv_ok k sh args
        then Replaced (p\<lparr>syscalls := syscalls p @ [SysFork, SysExecv sh args]\<rparr>) sh args
        else Exited (p\<lparr>syscalls := syscalls p @ [SysFork, SysExecv sh args, SysExit 0]\<rparr>) 0)"
  using assms
  by (simp add: forkexec_lua_def checkstring_arg1 fork_def strcpy_fits strlen_c_str
      c_str_idem c_str_terminated execv_def exit_call_def called_def Let_def)

lemma forkexec_child_overflow:
  assumes "stack L = LString cmd # rest" "fork_returns k = 0" "BUFSIZ \<le> strlen cmd"
  shows "forkexec_lua BUFSIZ k p L = Overflow (p\<lparr>syscalls := syscalls p @ [SysFork]\<rparr>)"
  using assms
  by (simp add: forkexec_lua_def checkstring_arg1 fork_def strcpy_overflow strlen_c_str
      called_def Let_def)

lemma forkexec_parent:
  assumes "stack L = LString cmd # rest" "fork_returns k \<noteq> 0"
  shows "forkexec_lua BUFSIZ k p L =
     Return (p\<lparr>syscalls := syscalls p @ [SysFork]\<rparr>) (logged L (CheckString 1)) 0"
  using assms
  by (simp add: forkexec_lua_def checkstring_arg1 fork_def called_def Let_def)

lemma forkcdexec_child:
  assumes "stack L = LString dir # LString bin # rest" "fork_returns k = 0"
    "strlen bin < BUFSIZ"
  shows "forkcdexec_lua BUFSIZ k p L =
    (let sh = ''/usr/bin/sh''; argv = [sh, ''-c'', c_str bin]
     in case chdir_to k (cwd p) (c_str dir) of
          None \<Rightarrow>
            Exited (p\<lparr>syscalls := syscalls p @ [SysFork, SysChdir (c_str dir), SysExit 0]\<rparr>) 0
        | Some d \<Rightarrow>
            if execv_ok k sh argv
            then Replaced (p\<lparr>cwd := d,
                   syscalls := syscalls p @ [SysFork, SysChdir (c_str dir), SysExecv sh argv]\<rparr>)
                   sh argv
            else Exited (p\<lparr>cwd := d,
                   syscalls := syscalls p @
                     [SysFork, SysChdir (c_str dir), SysExecv sh argv, SysExit 0]\<rparr>) 0)"
  using assms
  by (simp add: forkcdexec_lua_def checkstring_arg1 checkstring_arg2 stack_logged fork_def
      strcpy_fits strlen_c_str c_str_idem c_str_terminated chdir_def execv_def exit_call_def
      called_def Let_def split: option.splits)

lemma forkcdexec_child_overflow:
  assumes "stack L = LString dir # LString bin # rest" "fork_returns k = 0"
    "BUFSIZ \<le> strlen bin"
  shows "forkcdexec_lua BUFSIZ k p L = Overflow (p\<lparr>syscalls := syscalls p @ [SysFork]\<rparr>)"
  using assms
  by (simp add: forkcdexec_lua_def checkstring_arg1 checkstring_arg2 stack_logged fork_def
      strcpy_overflow strlen_c_str called_def Let_def)

lemma forkcdexec_parent:
  assumes "stack L = LString dir # LString bin # rest" "fork_returns k \<noteq> 0"
  shows "forkcdexec_lua BUFSIZ k p L =
     Return (p\<lparr>syscalls := syscalls p @ [SysFork]\<rparr>)
       (logged (logged L (CheckString 1)) (CheckString 2)) 0"
  using assms
  by (simp add: forkcdexec_lua_def checkstring_arg1 checkstring_arg2 stack_logged fork_def
      called_def Let_def)

lemmas sample_simps =
  sample_os_def sample_proc_def called_with_def strlen_def c_str_def NUL_def

section \<open>The capability registry\<close>


lemma package_loadedD:
  assumes "package_loaded L = Some l"
  shows "\<exists>p. globals L ''package'' = Some (LTable p) \<and> p < length (heap L) \<and>
             (heap L ! p) (LString ''loaded'') = Some (LTable l) \<and> l < length (heap L)"
  using assms
  by (auto simp: package_loaded_def table_at_def split: option.splits lua_value.splits if_splits)

lemma lua_prepare_newlib:
  assumes "package_loaded L = Some l"
  shows "lua_prepare L (\<lambda>L. Ok (luaL_newlib L reg, n)) name =
           Ok (L\<lparr>heap := (heap L @ [lib_table reg])
                            [l := rawset (heap L ! l) (LString name) (LTable (length (heap L)))],
                  stack_overrun := stack_overrun L
                    \<or> slots L < length (stack L) + (if reg = [] then 3 else 4),
                  api_log := api_log L @
                    [GetGlobal ''package'', GetField (- 1) ''loaded'', Remove (- 2),
                     PushString name, NewLib (map fst reg), SetTable (- 3), Remove (- 1)]\<rparr>)"
proof -
  from package_loadedD [OF assms] obtain p where
    p: "globals L ''package'' = Some (LTable p)" "p < length (heap L)"
       "(heap L ! p) (LString ''loaded'') = Some (LTable l)" "l < length (heap L)"
    by blast
  show ?thesis
    using p
    by (cases "reg = []"; cases "slots L < length (stack L) + (if reg = [] then 3 else 4)")
      (simp_all add: lua_prepare_def bind_def lua_getglobal_def lua_getfield_def
        lua_remove_def lua_pushstring_def luaL_newlib_def lua_settable_def push_def logged_def
        index2pos_def table_at_def rawget_def Let_def nth_append)
qed

lemma paper_register_eq:
  "paper_register L = lua_prepare L (\<lambda>L. Ok (luaL_newlib L paperlib, 1)) ''paperlib''"
  by (simp add: paper_register_def lua_prepare_def bind_def)

lemma openlibs_package_loaded: "package_loaded (luaL_openlibs luaL_newstate) = Some 0"
  by (simp add: package_loaded_def luaL_openlibs_def luaL_newstate_def logged_def table_at_def
      Let_def)

lemma paper_boot:
  "paper_register (luaL_openlibs luaL_newstate) =
     Ok \<lparr>stack = [], slots = LUA_MINSTACK, stack_overrun = False,
         globals = [''package'' \<mapsto> LTable 1],
         heap = [[LString ''package'' \<mapsto> LTable 1, LString ''paperlib'' \<mapsto> LTable 2],
                 [LString ''loaded'' \<mapsto> LTable 0], lib_table paperlib],
         loaded_cache = Some 0,
         api_log = [NewState, OpenLibs] @ boot_log ''paperlib'' paperlib\<rparr>"
  unfolding paper_register_eq lua_prepare_newlib [OF openlibs_package_loaded]
  by (simp add: luaL_openlibs_def luaL_newstate_def logged_def Let_def rawset_def boot_log_def
      numeral_2_eq_2 LUA_MINSTACK_def)

lemma cheveret_boot:
  "bind (lua_prepare (luaL_openlibs luaL_newstate) luaopen_chevlib ''chevlib'')
     (\<lambda>L. lua_prepare L (luaopen_inotify inotifylib) ''inotify'') =
     Ok \<lparr>stack = [], slots = LUA_MINSTACK, stack_overrun = False,
         globals = [''package'' \<mapsto> LTable 1],
         heap = [[LString ''package'' \<mapsto> LTable 1, LString ''chevlib'' \<mapsto> LTable 2,
                  LString ''inotify'' \<mapsto> LTable 3],
                 [LString ''loaded'' \<mapsto> LTable 0], lib_table chevlib, lib_table inotifylib],
         loaded_cache = Some 0,
         api_log = [NewState, OpenLibs] @ boot_log ''chevlib'' chevlib
                     @ boot_log ''inotify'' inotifylib\<rparr>"
proof -
  have 1: "lua_prepare (luaL_openlibs luaL_newstate) luaopen_chevlib ''chevlib'' =
     Ok \<lparr>stack = [], slots = LUA_MINSTACK, stack_overrun = False,
         globals = [''package'' \<mapsto> LTable 1],
         heap = [[LString ''package'' \<mapsto> LTable 1, LString ''chevlib'' \<mapsto> LTable 2],
                 [LString ''loaded'' \<mapsto> LTable 0], lib_table chevlib],
         loaded_cache = Some 0,
         api_log = [NewState, OpenLibs] @ boot_log ''chevlib'' chevlib\<rparr>" (is "_ = Ok ?L1")
    unfolding luaopen_chevlib_def lua_prepare_newlib [OF openlibs_package_loaded]
    by (simp add: luaL_openlibs_def luaL_newstate_def logged_def Let_def rawset_def boot_log_def
      numeral_2_eq_2 LUA_MINSTACK_def)
  have 2: "package_loaded ?L1 = Some 0"
    by (simp add: package_loaded_def table_at_def)
  show ?thesis
    unfolding 1 bind_def luaopen_inotify_def lua_result.case lua_prepare_newlib [OF 2]
    by (simp add: rawset_def boot_log_def numeral_2_eq_2 numeral_3_eq_3 LUA_MINSTACK_def)
qed

section \<open>The bootstrap sequence\<close>


lemmas main_simps =
  Let_def luaL_loadbuffer_def luaL_checkstring_def lua_call_def index2pos_def push_def
  logged_def boot_log_def LUA_MINSTACK_def

lemma checkstring_log:
  "luaL_checkstring L i = Ok (s, L') \<Longrightarrow> api_log L' = api_log L @ [CheckString i]"
  "luaL_checkstring L i = Raise e L' \<Longrightarrow> api_log L' = api_log L @ [CheckString i]"
  by (auto simp: luaL_checkstring_def logged_def Let_def
      split: option.splits lua_value.splits)

lemma lua_call_log:
  "lua_call rt L n m = Ok L' \<Longrightarrow> api_log L' = api_log L @ [Call n m]"
  "lua_call rt L n m = Raise e L' \<Longrightarrow> api_log L' = api_log L @ [Call n m]"
  by (auto simp: lua_call_def logged_def Let_def split: if_splits sum.splits prod.splits)

lemma paper_main_log:
  "api_log (lua (snd (paper_main rt paper_bytecode argc_in argv_in))) =
     [NewState, OpenLibs] @ boot_log ''paperlib'' paperlib @ LoadBuffer ''paper'' #
       (let status = fst (lua_load rt paper_bytecode ''paper'')
        in if status = LUA_ERRSYNTAX rt then [CheckString (- 1)]
           else if status = LUA_ERRMEM rt then []
           else if status = LUA_OK rt then [Call 0 0]
           else [])"
  by (auto simp: paper_main_def paper_boot Let_def luaL_loadbuffer_def push_def logged_def
      boot_log_def split: prod.splits lua_result.splits
      dest!: checkstring_log lua_call_log)

lemma cheveret_main_log:
  "api_log (lua (cheveret_main rt inotifylib cheveret_lc argc_in argv_in)) =
     [NewState, OpenLibs] @ boot_log ''chevlib'' chevlib @ boot_log ''inotify'' inotifylib
       @ LoadBuffer ''cheveret'' #
       (let status = fst (lua_load rt cheveret_lc ''cheveret'')
        in if status = LUA_ERRSYNTAX rt then [CheckString (- 1)]
           else if status = LUA_ERRMEM rt then []
           else [Call 0 0])"
  by (auto simp: cheveret_main_def cheveret_boot Let_def luaL_loadbuffer_def push_def
      logged_def boot_log_def split: prod.splits lua_result.splits
      dest!: checkstring_log lua_call_log)

lemma checkstring_state:
  "luaL_checkstring L i = Ok (s, L') \<Longrightarrow> L' = logged L (CheckString i)"
  "luaL_checkstring L i = Raise e L' \<Longrightarrow> L' = logged L (CheckString i)"
  by (auto simp: luaL_checkstring_def Let_def split: option.splits lua_value.splits)

lemma loadbuffer_state:
  "luaL_loadbuffer rt L buff (length buff) name = (status, L1) \<Longrightarrow>
     status = fst (lua_load rt buff name)
   \<and> L1 = push (logged L (LoadBuffer name)) (snd (lua_load rt buff name))"
  by (auto simp: luaL_loadbuffer_def split: prod.splits)

lemma paper_main_state:
  assumes "paper_register (luaL_openlibs luaL_newstate) = Ok Lb"
    and "luaL_loadbuffer rt Lb paper_bytecode (length paper_bytecode) ''paper'' = (status, L1)"
  shows "lua (snd (paper_main rt paper_bytecode argc_in argv_in)) =
     (if status = LUA_ERRSYNTAX rt then logged L1 (CheckString (- 1))
      else if status = LUA_ERRMEM rt then L1
      else if status = LUA_OK rt
        then (case lua_call rt L1 0 0 of Ok L2 \<Rightarrow> L2 | Raise e L2 \<Rightarrow> L2)
      else L1)"
  using assms
  by (auto simp: paper_main_def Let_def split: lua_result.splits dest: checkstring_state)

lemma cheveret_main_state:
  assumes "bind (lua_prepare (luaL_openlibs luaL_newstate) luaopen_chevlib ''chevlib'')
             (\<lambda>L. lua_prepare L (luaopen_inotify inotifylib) ''inotify'') = Ok Lb"
    and "luaL_loadbuffer rt Lb cheveret_lc (length cheveret_lc) ''cheveret'' = (status, L1)"
  shows "lua (cheveret_main rt inotifylib cheveret_lc argc_in argv_in) =
     (if status = LUA_ERRSYNTAX rt then logged L1 (CheckString (- 1))
      else if status = LUA_ERRMEM rt then L1
      else (case lua_call rt L1 0 0 of Ok L2 \<Rightarrow> L2 | Raise e L2 \<Rightarrow> L2))"
  using assms
  by (auto simp: cheveret_main_def Let_def split: lua_result.splits dest: checkstring_state)

lemma paper_unhandled_status:
  assumes "lua_load rt paper_bytecode ''paper'' = (status, v)"
    "status \<noteq> LUA_ERRSYNTAX rt" "status \<noteq> LUA_ERRMEM rt" "status \<noteq> LUA_OK rt"
  shows "let r = snd (paper_main rt paper_bytecode argc_in argv_in)
         in ending r = Exit (- 1) \<and> exit_code (ending r) = Some 255
            \<and> stderr r = ''Failed to load Paper: an unhandled error ocurred.\<newline>''
            \<and> \<not> list_ex is_call (api_log (lua r))
            \<and> \<not> stack_overrun (lua r)"
  using assms by (simp add: paper_main_def paper_boot main_simps)

lemma cheveret_unhandled_status:
  assumes "lua_load rt cheveret_lc ''cheveret'' = (status, v)"
    "status \<noteq> LUA_ERRSYNTAX rt" "status \<noteq> LUA_ERRMEM rt" "\<not> is_function v"
  shows "let r = cheveret_main rt inotifylib cheveret_lc argc_in argv_in
         in ending r = Abort NotCallable \<and> exit_code (ending r) = None
            \<and> stderr r = []
            \<and> api_log (lua r) = [NewState, OpenLibs] @ boot_log ''chevlib'' chevlib
                @ boot_log ''inotify'' inotifylib @ [LoadBuffer ''cheveret'', Call 0 0]
            \<and> \<not> stack_overrun (lua r)"
  using assms
  by (simp add: cheveret_main_def cheveret_boot Let_def luaL_loadbuffer_def lua_call_def
      push_def logged_def LUA_MINSTACK_def)

lemma get_cli_args_loop_pushes:
  assumes "argc g = int (length (argv g))"
  shows "i \<le> length (argv g) \<Longrightarrow>
         get_cli_args_loop g (int i) L =
           Some (L\<lparr>stack := stack L @ map LString (drop i (argv g)),
                   stack_overrun := stack_overrun L
                     \<or> (i < length (argv g)
                        \<and> slots L < length (stack L) + (length (argv g) - i)),
                   api_log := api_log L @ map PushString (drop i (argv g))\<rparr>)"
proof (induction "length (argv g) - i" arbitrary: i L)
  case 0
  then have "i = length (argv g)" by simp
  then show ?case
    using assms by (subst get_cli_args_loop.simps) simp
next
  case (Suc n)
  then have i: "i < length (argv g)" by simp
  then have step: "get_cli_args_loop g (int i) L =
      get_cli_args_loop g (int (Suc i)) (lua_pushstring L (argv g ! i))"
    using assms by (subst get_cli_args_loop.simps) (simp add: add.commute)
  let ?L1 = "lua_pushstring L (argv g ! i)"
  have "n = length (argv g) - Suc i" using Suc.hyps(2) by simp
  moreover have "Suc i \<le> length (argv g)" using i by simp
  ultimately have rest: "get_cli_args_loop g (int (Suc i)) ?L1 =
      Some (?L1
        \<lparr>stack := stack ?L1 @ map LString (drop (Suc i) (argv g)),
         stack_overrun := stack_overrun ?L1
           \<or> (Suc i < length (argv g)
              \<and> slots ?L1 < length (stack ?L1) + (length (argv g) - Suc i)),
         api_log := api_log ?L1 @ map PushString (drop (Suc i) (argv g))\<rparr>)"
    by (rule Suc.hyps(1))
  show ?case
    unfolding step rest
    by (rule arg_cong [where f = Some], rule lua_State.equality)
      (use i in \<open>auto simp: lua_pushstring_def push_def logged_def
        Cons_nth_drop_Suc [OF i, symmetric]\<close>)
qed

text \<open>
  With a vector of at most \<^verbatim>\<open>LUA_MINSTACK\<close> arguments, called by Lua, \<^verbatim>\<open>get_cli_args\<close> returns
  the arguments in the order of the invocation and stays within the stack.
\<close>

lemma cli_args_returned_in_order:
  assumes "argc_in = int (length argv_in)"
  shows "\<exists>L'. get_cli_args_lua (fst (paper_main rt paper_bytecode argc_in argv_in)) L =
               Some (L', int (length argv_in))
           \<and> results (L', int (length argv_in)) = map LString argv_in
           \<and> stack L' = stack L @ map LString argv_in
           \<and> stack_overrun L' = (stack_overrun L
                \<or> (argv_in \<noteq> [] \<and> slots L < length (stack L) + length argv_in))"
proof -
  let ?g = "fst (paper_main rt paper_bytecode argc_in argv_in)"
  have g: "argc ?g = int (length (argv ?g))" "argv ?g = argv_in" "argc ?g = argc_in"
    using assms by (simp_all add: paper_main_def Let_def)
  from get_cli_args_loop_pushes [OF g(1), of 0 L] show ?thesis
    by (simp add: get_cli_args_lua_def g results_def)
qed

section \<open>The claims\<close>

text \<open>
  C1. When loading the embedded blob reports a syntax error, the launcher writes its fixed
  line and then the runtime's message to standard error and ends with exit code 1; when
  it reports a memory error, the launcher writes its fixed line and ends with exit code 2.
  In neither case is anything called, and the stack is not overrun. This holds for
  paper.c and for cheveret.c. (The message reaches \<^verbatim>\<open>fprintf\<close> as a C string.)
\<close>

theorem load_failure_exit_codes:
  assumes distinct_codes: "LUA_ERRMEM rt \<noteq> LUA_ERRSYNTAX rt"
  shows "(lua_load rt paper_bytecode ''paper'' = (LUA_ERRSYNTAX rt, LString msg) \<longrightarrow>
            (let r = snd (paper_main rt paper_bytecode argc_in argv_in)
             in ending r = Exit 1 \<and> exit_code (ending r) = Some 1
                \<and> stderr r = ''Failed to load Paper: embedded binary is malformed.\<newline>''
                               @ c_str msg @ ''\<newline>''
                \<and> \<not> list_ex is_call (api_log (lua r))
                \<and> \<not> stack_overrun (lua r)))
       \<and> (lua_load rt paper_bytecode ''paper'' = (LUA_ERRMEM rt, v) \<longrightarrow>
            (let r = snd (paper_main rt paper_bytecode argc_in argv_in)
             in ending r = Exit 2 \<and> exit_code (ending r) = Some 2
                \<and> stderr r = ''Failed to load Paper: could not allocate memory.\<newline>''
                \<and> \<not> list_ex is_call (api_log (lua r))
                \<and> \<not> stack_overrun (lua r)))
       \<and> (lua_load rt cheveret_lc ''cheveret'' = (LUA_ERRSYNTAX rt, LString msg) \<longrightarrow>
            (let r = cheveret_main rt inotifylib cheveret_lc argc_in argv_in
             in ending r = Exit 1 \<and> exit_code (ending r) = Some 1
                \<and> stderr r = ''Failed to load Cheveret: embedded binary is malformed.\<newline>''
                               @ c_str msg @ ''\<newline>''
                \<and> \<not> list_ex is_call (api_log (lua r))
                \<and> \<not> stack_overrun (lua r)))
       \<and> (lua_load rt cheveret_lc ''cheveret'' = (LUA_ERRMEM rt, v) \<longrightarrow>
            (let r = cheveret_main rt inotifylib cheveret_lc argc_in argv_in
             in ending r = Exit 2 \<and> exit_code (ending r) = Some 2
                \<and> stderr r = ''Failed to load Cheveret: could not allocate memory.\<newline>''
                \<and> \<not> list_ex is_call (api_log (lua r))
                \<and> \<not> stack_overrun (lua r)))"
proof (intro conjI impI)
  assume "lua_load rt paper_bytecode ''paper'' = (LUA_ERRSYNTAX rt, LString msg)"
  then show "let r = snd (paper_main rt paper_bytecode argc_in argv_in)
             in ending r = Exit 1 \<and> exit_code (ending r) = Some 1
                \<and> stderr r = ''Failed to load Paper: embedded binary is malformed.\<newline>''
                               @ c_str msg @ ''\<newline>''
                \<and> \<not> list_ex is_call (api_log (lua r))
                \<and> \<not> stack_overrun (lua r)"
    by (simp add: paper_main_def paper_boot main_simps)
next
  assume "lua_load rt paper_bytecode ''paper'' = (LUA_ERRMEM rt, v)"
  then show "let r = snd (paper_main rt paper_bytecode argc_in argv_in)
             in ending r = Exit 2 \<and> exit_code (ending r) = Some 2
                \<and> stderr r = ''Failed to load Paper: could not allocate memory.\<newline>''
                \<and> \<not> list_ex is_call (api_log (lua r))
                \<and> \<not> stack_overrun (lua r)"
    using distinct_codes by (simp add: paper_main_def paper_boot main_simps)
next
  assume "lua_load rt cheveret_lc ''cheveret'' = (LUA_ERRSYNTAX rt, LString msg)"
  then show "let r = cheveret_main rt inotifylib cheveret_lc argc_in argv_in
             in ending r = Exit 1 \<and> exit_code (ending r) = Some 1
                \<and> stderr r = ''Failed to load Cheveret: embedded binary is malformed.\<newline>''
                               @ c_str msg @ ''\<newline>''
                \<and> \<not> list_ex is_call (api_log (lua r))
                \<and> \<not> stack_overrun (lua r)"
    by (simp add: cheveret_main_def cheveret_boot main_simps)
next
  assume "lua_load rt cheveret_lc ''cheveret'' = (LUA_ERRMEM rt, v)"
  then show "let r = cheveret_main rt inotifylib cheveret_lc argc_in argv_in
             in ending r = Exit 2 \<and> exit_code (ending r) = Some 2
                \<and> stderr r = ''Failed to load Cheveret: could not allocate memory.\<newline>''
                \<and> \<not> list_ex is_call (api_log (lua r))
                \<and> \<not> stack_overrun (lua r)"
    using distinct_codes by (simp add: cheveret_main_def cheveret_boot main_simps)
qed

theorem load_failure_exit_codes_witness:
  "(let r = snd (paper_main sample_rt ''junk'' 1 [''launcher''])
    in ending r = Exit 1 \<and> exit_code (ending r) = Some 1
       \<and> stderr r = ''Failed to load Paper: embedded binary is malformed.\<newline>''
                      @ ''paper: bad binary format\<newline>''
       \<and> \<not> list_ex is_call (api_log (lua r))
       \<and> \<not> stack_overrun (lua r))
   \<and> (let r = snd (paper_main sample_rt ''mem'' 1 [''launcher''])
      in ending r = Exit 2 \<and> exit_code (ending r) = Some 2
         \<and> stderr r = ''Failed to load Paper: could not allocate memory.\<newline>''
         \<and> \<not> list_ex is_call (api_log (lua r))
         \<and> \<not> stack_overrun (lua r))
   \<and> (let r = cheveret_main sample_rt [] ''junk'' 1 [''launcher'']
      in ending r = Exit 1 \<and> exit_code (ending r) = Some 1
         \<and> stderr r = ''Failed to load Cheveret: embedded binary is malformed.\<newline>''
                        @ ''cheveret: bad binary format\<newline>''
         \<and> \<not> list_ex is_call (api_log (lua r))
         \<and> \<not> stack_overrun (lua r))
   \<and> (let r = cheveret_main sample_rt [] ''mem'' 1 [''launcher'']
      in ending r = Exit 2 \<and> exit_code (ending r) = Some 2
         \<and> stderr r = ''Failed to load Cheveret: could not allocate memory.\<newline>''
         \<and> \<not> list_ex is_call (api_log (lua r))
         \<and> \<not> stack_overrun (lua r))"
  using load_failure_exit_codes [where rt = sample_rt and paper_bytecode = "''junk''"
      and msg = "''paper: bad binary format''" and argc_in = 1 and argv_in = "[''launcher'']"
      and cheveret_lc = "''mem''" and v = "LString ''not enough memory''"
      and inotifylib = "[]"]
    load_failure_exit_codes [where rt = sample_rt and paper_bytecode = "''mem''"
      and msg = "''cheveret: bad binary format''" and argc_in = 1
      and argv_in = "[''launcher'']" and cheveret_lc = "''junk''"
      and v = "LString ''not enough memory''" and inotifylib = "[]"]
  by (simp add: sample_rt_def c_str_def NUL_def)

text \<open>
  C2. A load status other than success, syntax error and memory error should end either
  launcher with a fixed line on standard error and an exit code that is neither 0, 1 nor
  2, without any call. paper.c does so through the \<^verbatim>\<open>default\<close> branch of its
  \<^verbatim>\<open>switch\<close> (\<open>paper_unhandled_status\<close>: it returns -1, exit code 255). The \<^verbatim>\<open>switch\<close> of
  cheveret.c has no such branch: with status 5 the launcher writes nothing, goes on to
  \<^verbatim>\<open>lua_call\<close> with the error message on top of the stack, and aborts on the error
  raised by calling a string.
\<close>

theorem cheveret_unhandled_status_reaches_call:
  "(let r = cheveret_main sample_rt [] ''gc'' 1 [''cheveret'']
    in ending r = Abort NotCallable \<and> exit_code (ending r) = None \<and> stderr r = []
       \<and> list_ex is_call (api_log (lua r))
       \<and> \<not> stack_overrun (lua r))
   \<and> (let r = snd (paper_main sample_rt ''gc'' 1 [''paper''])
      in ending r = Exit (- 1) \<and> exit_code (ending r) = Some 255
         \<and> stderr r = ''Failed to load Paper: an unhandled error ocurred.\<newline>''
         \<and> \<not> list_ex is_call (api_log (lua r))
         \<and> \<not> stack_overrun (lua r))"
proof -
  have load_c: "lua_load sample_rt ''gc'' ''cheveret'' = (5, LString ''error in __gc metamethod'')"
    by (simp add: sample_rt_def)
  have load_p: "lua_load sample_rt ''gc'' ''paper'' = (5, LString ''error in __gc metamethod'')"
    by (simp add: sample_rt_def)
  have codes: "5 \<noteq> LUA_ERRSYNTAX sample_rt" "5 \<noteq> LUA_ERRMEM sample_rt" "5 \<noteq> LUA_OK sample_rt"
    by (simp_all add: sample_rt_def)
  show ?thesis
    using cheveret_unhandled_status [OF load_c codes(1,2), of "[]" 1 "[''cheveret'']"]
      paper_unhandled_status [OF load_p codes, of 1 "[''paper'']"]
    by (simp add: Let_def boot_log_def)
qed

text \<open>
  C3. \<^verbatim>\<open>get_cli_args\<close> should return every argument of the invocation, in order, for every
  invocation; the comment in paper.c says so as well. Its loop pushes one string for each
  argument and never asks for room, so it does so only while the vector has at most
  \<^verbatim>\<open>LUA_MINSTACK\<close> entries (\<open>cli_args_returned_in_order\<close>): with 20 entries the results are
  the 20 arguments and the stack is not overrun, with 21 entries the last push finds no
  free slot.
\<close>

theorem cli_args_overrun_stack:
  "(\<exists>L'. get_cli_args_lua (fst (paper_main sample_rt ''ok'' 21 (replicate 21 ''x'')))
             (called_with []) = Some (L', 21)
        \<and> length (stack L') = 21 \<and> slots L' = 20 \<and> stack_overrun L')
   \<and> (\<exists>L'. get_cli_args_lua (fst (paper_main sample_rt ''ok'' 20 (replicate 20 ''x'')))
             (called_with []) = Some (L', 20)
        \<and> results (L', 20) = replicate 20 (LString ''x'') \<and> slots L' = 20
        \<and> \<not> stack_overrun L')"
proof -
  have state: "stack (called_with []) = []" "slots (called_with []) = 20"
    "\<not> stack_overrun (called_with [])"
    by (simp_all add: called_with_def luaL_openlibs_def luaL_newstate_def logged_def Let_def
        LUA_MINSTACK_def)
  have slots_kept: "slots L' = slots (called_with [])"
    if "get_cli_args_lua g (called_with []) = Some (L', n)"
      "argc g = int (length (argv g))" for g L' n
    using that get_cli_args_loop_pushes [OF that(2), of 0 "called_with []"]
    by (auto simp: get_cli_args_lua_def)
  have g: "argc (fst (paper_main sample_rt ''ok'' (int k) (replicate k ''x''))) =
      int (length (argv (fst (paper_main sample_rt ''ok'' (int k) (replicate k ''x'')))))"
    for k
    by (simp add: paper_main_def Let_def)
  from cli_args_returned_in_order [of 21 "replicate 21 ''x''" sample_rt "''ok''"
      "called_with []"]
  obtain L21 where L21:
    "get_cli_args_lua (fst (paper_main sample_rt ''ok'' 21 (replicate 21 ''x'')))
       (called_with []) = Some (L21, 21)"
    "stack L21 = stack (called_with []) @ map LString (replicate 21 ''x'')"
    "stack_overrun L21 = (stack_overrun (called_with [])
       \<or> (replicate 21 ''x'' \<noteq> []
          \<and> slots (called_with []) < length (stack (called_with [])) + length (replicate 21 ''x'')))"
    by auto
  from cli_args_returned_in_order [of 20 "replicate 20 ''x''" sample_rt "''ok''"
      "called_with []"]
  obtain L20 where L20:
    "get_cli_args_lua (fst (paper_main sample_rt ''ok'' 20 (replicate 20 ''x'')))
       (called_with []) = Some (L20, 20)"
    "results (L20, 20) = map LString (replicate 20 ''x'')"
    "stack_overrun L20 = (stack_overrun (called_with [])
       \<or> (replicate 20 ''x'' \<noteq> []
          \<and> slots (called_with []) < length (stack (called_with [])) + length (replicate 20 ''x'')))"
    by auto
  have "slots L21 = 20" "slots L20 = 20"
    using slots_kept [OF L21(1)] slots_kept [OF L20(1)] g [of 21] g [of 20] state(2)
    by simp_all
  with L21 L20 state show ?thesis
    by simp
qed

text \<open>
  C4. In each launcher \<^verbatim>\<open>get_is_devel\<close> and \<^verbatim>\<open>get_app_id\<close> agree for either setting of the
  build flag: a development build returns true and the identity with the suffix
  \<open>Devel\<close>, a release build returns false and the identity without it. Each pushes one
  value: with a free slot, as there is whenever Lua calls a C function, the stack is not
  overrun.
\<close>

theorem devel_flag_and_id_agree:
  "(\<exists>L1 L2 ident.
       get_is_devel_lua DEVEL L = Ok (L1, 1) \<and> results (L1, 1) = [LBoolean DEVEL]
     \<and> paper_get_app_id_lua DEVEL L = Ok (L2, 1) \<and> results (L2, 1) = [LString ident]
     \<and> ident = ''ca.vlacroix.Paper'' @ (if DEVEL then ''.Devel'' else [])
     \<and> suffix ''Devel'' ident = DEVEL
     \<and> (length (stack L) < slots L \<longrightarrow>
          stack_overrun L1 = stack_overrun L \<and> stack_overrun L2 = stack_overrun L))
   \<and> (\<exists>L1 L2 ident.
       get_is_devel_lua DEVEL L = Ok (L1, 1) \<and> results (L1, 1) = [LBoolean DEVEL]
     \<and> cheveret_get_app_id_lua DEVEL L = Ok (L2, 1) \<and> results (L2, 1) = [LString ident]
     \<and> ident = ''ca.vlacroix.Cheveret'' @ (if DEVEL then ''.Devel'' else [])
     \<and> suffix ''Devel'' ident = DEVEL
     \<and> (length (stack L) < slots L \<longrightarrow>
          stack_overrun L1 = stack_overrun L \<and> stack_overrun L2 = stack_overrun L))"
  by (cases DEVEL)
     (simp_all add: get_is_devel_lua_def paper_get_app_id_lua_def cheveret_get_app_id_lua_def
       lua_pushboolean_def lua_pushstring_def push_def logged_def results_def suffix_to_prefix)

theorem devel_flag_and_id_agree_witness:
  "(\<exists>L1. get_is_devel_lua True (called_with []) = Ok (L1, 1)
        \<and> results (L1, 1) = [LBoolean True] \<and> \<not> stack_overrun L1)
   \<and> (\<exists>L2. paper_get_app_id_lua True (called_with []) = Ok (L2, 1)
        \<and> results (L2, 1) = [LString ''ca.vlacroix.Paper.Devel''] \<and> \<not> stack_overrun L2)
   \<and> (\<exists>L1. get_is_devel_lua False (called_with []) = Ok (L1, 1)
        \<and> results (L1, 1) = [LBoolean False] \<and> \<not> stack_overrun L1)
   \<and> (\<exists>L2. cheveret_get_app_id_lua False (called_with []) = Ok (L2, 1)
        \<and> results (L2, 1) = [LString ''ca.vlacroix.Cheveret''] \<and> \<not> stack_overrun L2)"
proof -
  have room: "length (stack (called_with [])) < slots (called_with [])"
    "\<not> stack_overrun (called_with [])"
    by (simp_all add: called_with_def luaL_openlibs_def luaL_newstate_def logged_def Let_def
        LUA_MINSTACK_def)
  from devel_flag_and_id_agree [of True "called_with []"]
    devel_flag_and_id_agree [of False "called_with []"] room
  show ?thesis
    by auto
qed

text \<open>
  C5. \<^verbatim>\<open>getcwd\<close> of cheveret.c returns exactly one result, the path of the working
  directory, when the query of the operating system succeeds. When the query fails, as
  it does when the path and its NUL exceed the \<open>BUFSIZ - 1\<close> bytes offered or when the
  directory cannot be read, it returns no result and raises no error: the function
  returns with the interpreter state it was given. The one push of the successful case
  stays within the stack when there is a free slot, as there is whenever Lua calls a C
  function.
\<close>

theorem getcwd_one_result_or_none:
  "(fst (getcwd k p (BUFSIZ - 1)) = Some path \<longrightarrow>
      (\<exists>p' L'. getcwd_lua BUFSIZ k p L = Return p' L' 1
         \<and> results (L', 1) = [LString path] \<and> path = c_str (cwd p)
         \<and> (length (stack L) < slots L \<longrightarrow> stack_overrun L' = stack_overrun L)))
   \<and> (fst (getcwd k p (BUFSIZ - 1)) = None \<longrightarrow>
      (\<exists>p'. getcwd_lua BUFSIZ k p L = Return p' L 0 \<and> results (L, 0) = []))
   \<and> (BUFSIZ - 1 < strlen (cwd p) + 1 \<longrightarrow> fst (getcwd k p (BUFSIZ - 1)) = None)
   \<and> (\<not> getcwd_ok k \<longrightarrow> fst (getcwd k p (BUFSIZ - 1)) = None)
   \<and> (getcwd_ok k \<and> strlen (cwd p) + 1 \<le> BUFSIZ - 1 \<longrightarrow>
        fst (getcwd k p (BUFSIZ - 1)) = Some (c_str (cwd p)))"
  by (auto simp: getcwd_lua_def getcwd_def lua_pushstring_def push_def logged_def results_def
      split: if_splits)

theorem getcwd_one_result_or_none_witness:
  "(\<exists>p' L'. getcwd_lua 8192 (sample_os 1) sample_proc (called_with []) = Return p' L' 1
       \<and> results (L', 1) = [LString ''/home/user''] \<and> \<not> stack_overrun L')
   \<and> (\<exists>p'. getcwd_lua 8 (sample_os 1) sample_proc (called_with []) =
              Return p' (called_with []) 0)"
proof -
  have room: "length (stack (called_with [])) < slots (called_with [])"
    "\<not> stack_overrun (called_with [])"
    by (simp_all add: called_with_def luaL_openlibs_def luaL_newstate_def logged_def Let_def
        LUA_MINSTACK_def)
  have ok: "fst (getcwd (sample_os 1) sample_proc (8192 - 1)) = Some ''/home/user''"
    by (simp add: getcwd_def sample_os_def sample_proc_def strlen_def c_str_def NUL_def)
  have small: "fst (getcwd (sample_os 1) sample_proc (8 - 1)) = None"
    by (simp add: getcwd_def sample_os_def sample_proc_def strlen_def c_str_def NUL_def)
  show ?thesis
    using getcwd_one_result_or_none [of "sample_os 1" sample_proc 8192 "''/home/user''" "called_with []"]
      getcwd_one_result_or_none [of "sample_os 1" sample_proc 8 path "called_with []"]
      ok small room
    by (auto simp: sample_proc_def c_str_def NUL_def)
qed

text \<open>
  In the child (where \<^verbatim>\<open>fork\<close> returned 0) of a spawn whose command fits the buffer
  \<open>program\<close>: when \<^verbatim>\<open>chdir\<close> fails in \<^verbatim>\<open>forkcdexec\<close>, the child's next and last system call
  is \<^verbatim>\<open>exit(0)\<close>; when \<^verbatim>\<open>execv\<close> fails, in either launcher, the same. The child makes an
  \<^verbatim>\<open>execv\<close> call in \<^verbatim>\<open>forkcdexec\<close> exactly when \<^verbatim>\<open>chdir\<close> succeeded, and it never returns
  into the interpreter.
\<close>

lemma child_exits_when_command_fits:
  assumes child: "fork_returns k = 0"
    and args: "stack L = LString dir # LString bin # rest" "stack L1 = LString cmd # rest1"
    and fits: "strlen bin < BUFSIZ" "strlen cmd < BUFSIZ"
  shows "(chdir_to k (cwd p) (c_str dir) = None \<longrightarrow>
            forkcdexec_lua BUFSIZ k p L =
              Exited (p\<lparr>syscalls := syscalls p @
                        [SysFork, SysChdir (c_str dir), SysExit 0]\<rparr>) 0)
       \<and> (chdir_to k (cwd p) (c_str dir) = Some d
            \<and> \<not> execv_ok k ''/usr/bin/sh'' [''/usr/bin/sh'', ''-c'', c_str bin] \<longrightarrow>
            forkcdexec_lua BUFSIZ k p L =
              Exited (p\<lparr>cwd := d, syscalls := syscalls p @
                        [SysFork, SysChdir (c_str dir),
                         SysExecv ''/usr/bin/sh'' [''/usr/bin/sh'', ''-c'', c_str bin],
                         SysExit 0]\<rparr>) 0)
       \<and> (\<not> execv_ok k ''/usr/bin/sh'' [''/usr/bin/sh'', ''-c'', c_str cmd] \<longrightarrow>
            forkexec_lua BUFSIZ k p L1 =
              Exited (p\<lparr>syscalls := syscalls p @
                        [SysFork, SysExecv ''/usr/bin/sh'' [''/usr/bin/sh'', ''-c'', c_str cmd],
                         SysExit 0]\<rparr>) 0)
       \<and> (case proc_of (forkcdexec_lua BUFSIZ k p L) of
            None \<Rightarrow> False
          | Some p' \<Rightarrow>
              list_ex is_execv (new_syscalls p p') = (chdir_to k (cwd p) (c_str dir) \<noteq> None))
       \<and> (\<forall>p' L' n. forkcdexec_lua BUFSIZ k p L \<noteq> Return p' L' n)
       \<and> (\<forall>p' L' n. forkexec_lua BUFSIZ k p L1 \<noteq> Return p' L' n)"
proof -
  note cd = forkcdexec_child [OF args(1) child fits(1), of p]
  note ex = forkexec_child [OF args(2) child fits(2), of p]
  have 1: "chdir_to k (cwd p) (c_str dir) = None \<longrightarrow>
            forkcdexec_lua BUFSIZ k p L =
              Exited (p\<lparr>syscalls := syscalls p @
                        [SysFork, SysChdir (c_str dir), SysExit 0]\<rparr>) 0"
    by (simp add: cd Let_def)
  have 2: "chdir_to k (cwd p) (c_str dir) = Some d
            \<and> \<not> execv_ok k ''/usr/bin/sh'' [''/usr/bin/sh'', ''-c'', c_str bin] \<longrightarrow>
            forkcdexec_lua BUFSIZ k p L =
              Exited (p\<lparr>cwd := d, syscalls := syscalls p @
                        [SysFork, SysChdir (c_str dir),
                         SysExecv ''/usr/bin/sh'' [''/usr/bin/sh'', ''-c'', c_str bin],
                         SysExit 0]\<rparr>) 0"
    by (simp add: cd Let_def)
  have 3: "\<not> execv_ok k ''/usr/bin/sh'' [''/usr/bin/sh'', ''-c'', c_str cmd] \<longrightarrow>
            forkexec_lua BUFSIZ k p L1 =
              Exited (p\<lparr>syscalls := syscalls p @
                        [SysFork, SysExecv ''/usr/bin/sh'' [''/usr/bin/sh'', ''-c'', c_str cmd],
                         SysExit 0]\<rparr>) 0"
    by (simp add: ex Let_def)
  have 4: "case proc_of (forkcdexec_lua BUFSIZ k p L) of
            None \<Rightarrow> False
          | Some p' \<Rightarrow>
              list_ex is_execv (new_syscalls p p') = (chdir_to k (cwd p) (c_str dir) \<noteq> None)"
    by (simp add: cd new_syscalls_def Let_def split: option.splits)
  have 5: "\<forall>p' L' n. forkcdexec_lua BUFSIZ k p L \<noteq> Return p' L' n"
    by (simp add: cd Let_def split: option.splits)
  have 6: "\<forall>p' L' n. forkexec_lua BUFSIZ k p L1 \<noteq> Return p' L' n"
    by (simp add: ex Let_def)
  from 1 2 3 4 5 6 show ?thesis by blast
qed

text \<open>
  C6. In the child of every spawn a failed \<^verbatim>\<open>chdir\<close> or \<^verbatim>\<open>execv\<close> should be followed at once
  by \<^verbatim>\<open>exit(0)\<close>; the comments in both sources say that the child needs to exit then. The
  code does so for every command that fits \<open>program\<close> (\<open>child_exits_when_command_fits\<close>).
  The \<^verbatim>\<open>strcpy\<close> into \<open>program\<close> comes first, though, and is not checked: with \<open>BUFSIZ\<close> 8192
  and a command of 8192 characters the child, in a kernel where \<^verbatim>\<open>chdir\<close> and \<^verbatim>\<open>execv\<close>
  would fail, writes past the end of the array after its \<^verbatim>\<open>fork\<close> and makes no \<^verbatim>\<open>exit\<close> call;
  with the command \<open>touch marker\<close> in the same kernel it exits with 0.
\<close>

theorem long_command_overflows_before_exit:
  "forkcdexec_lua 8192 (sample_os 0) sample_proc
       (called_with [LString ''/nonexistent'', LString (replicate 8192 CHR ''a'')]) =
     Overflow \<lparr>cwd = ''/home/user'', syscalls = [SysFork]\<rparr>
   \<and> forkexec_lua 8192 (sample_os 0) sample_proc
       (called_with [LString (replicate 8192 CHR ''a'')]) =
     Overflow \<lparr>cwd = ''/home/user'', syscalls = [SysFork]\<rparr>
   \<and> forkcdexec_lua 8192 (sample_os 0) sample_proc
       (called_with [LString ''/nonexistent'', LString ''touch marker'']) =
     Exited \<lparr>cwd = ''/home/user'',
             syscalls = [SysFork, SysChdir ''/nonexistent'', SysExit 0]\<rparr> 0
   \<and> forkexec_lua 8192 (sample_os 0) sample_proc (called_with [LString ''touch marker'']) =
     Exited \<lparr>cwd = ''/home/user'',
             syscalls = [SysFork,
                         SysExecv ''/usr/bin/sh'' [''/usr/bin/sh'', ''-c'', ''touch marker''],
                         SysExit 0]\<rparr> 0"
proof -
  have child: "fork_returns (sample_os 0) = 0"
    by (simp add: sample_os_def)
  have long: "strlen (replicate 8192 CHR ''a'') = 8192"
    by (simp add: strlen_def c_str_id NUL_def)
  have args: "stack (called_with [LString ''/nonexistent'', LString (replicate 8192 CHR ''a'')])
      = LString ''/nonexistent'' # LString (replicate 8192 CHR ''a'') # []"
    "stack (called_with [LString (replicate 8192 CHR ''a'')])
      = LString (replicate 8192 CHR ''a'') # []"
    "stack (called_with [LString ''/nonexistent'', LString ''touch marker''])
      = LString ''/nonexistent'' # LString ''touch marker'' # []"
    "stack (called_with [LString ''touch marker'']) = LString ''touch marker'' # []"
    by (simp_all add: called_with_def)
  have short: "strlen ''touch marker'' < 8192"
    by (simp add: strlen_def c_str_def NUL_def)
  have 1: "forkcdexec_lua 8192 (sample_os 0) sample_proc
       (called_with [LString ''/nonexistent'', LString (replicate 8192 CHR ''a'')]) =
     Overflow \<lparr>cwd = ''/home/user'', syscalls = [SysFork]\<rparr>"
    by (simp add: forkcdexec_child_overflow [OF args(1) child] long sample_proc_def)
  have 2: "forkexec_lua 8192 (sample_os 0) sample_proc
       (called_with [LString (replicate 8192 CHR ''a'')]) =
     Overflow \<lparr>cwd = ''/home/user'', syscalls = [SysFork]\<rparr>"
    by (simp add: forkexec_child_overflow [OF args(2) child] long sample_proc_def)
  have 3: "forkcdexec_lua 8192 (sample_os 0) sample_proc
       (called_with [LString ''/nonexistent'', LString ''touch marker'']) =
     Exited \<lparr>cwd = ''/home/user'',
             syscalls = [SysFork, SysChdir ''/nonexistent'', SysExit 0]\<rparr> 0"
    unfolding forkcdexec_child [OF args(3) child short]
    by (simp add: sample_os_def sample_proc_def c_str_def NUL_def Let_def)
  have 4: "forkexec_lua 8192 (sample_os 0) sample_proc (called_with [LString ''touch marker''])
     = Exited \<lparr>cwd = ''/home/user'',
             syscalls = [SysFork,
                         SysExecv ''/usr/bin/sh'' [''/usr/bin/sh'', ''-c'', ''touch marker''],
                         SysExit 0]\<rparr> 0"
    unfolding forkexec_child [OF args(4) child short]
    by (simp add: sample_os_def sample_proc_def c_str_def NUL_def Let_def)
  from 1 2 3 4 show ?thesis by blast
qed

text \<open>
  C7. For every runtime and blob, in both launchers. The registration code, run in the
  state that \<^verbatim>\<open>luaL_openlibs\<close> left, ends without error in a state \<open>Lb\<close> that has every
  capability table in the module cache under its name. That state is the one the blob is
  loaded in: the interpreter state the launcher ends with is what \<^verbatim>\<open>luaL_loadbuffer\<close> made
  of \<open>Lb\<close>, the state \<open>L1\<close>, which still has the tables in the cache; after a syntax error
  with the one \<^verbatim>\<open>luaL_checkstring\<close> on it, and after a successful load with the one
  \<^verbatim>\<open>lua_call\<close>, which is made in \<open>L1\<close>. In the log of API calls \<^verbatim>\<open>luaL_openlibs\<close> and the
  \<^verbatim>\<open>lua_settable\<close> of the registration come before the load, no call of a function comes
  before the load, and the load comes before \<^verbatim>\<open>lua_call\<close>.
\<close>

theorem bootstrap_order:
  "(\<exists>Lb. paper_register (luaL_openlibs luaL_newstate) = Ok Lb
      \<and> \<not> stack_overrun Lb
      \<and> require Lb ''paperlib'' = Some (LTable 2)
      \<and> table_at Lb 2 = Some (lib_table paperlib)
      \<and> OpenLibs \<in> set (api_log Lb)
      \<and> \<not> list_ex is_call (api_log Lb)
      \<and> (case luaL_loadbuffer rt Lb paper_bytecode (length paper_bytecode) ''paper'' of
           (status, L1) \<Rightarrow>
             api_log L1 = api_log Lb @ [LoadBuffer ''paper'']
           \<and> \<not> stack_overrun L1
           \<and> require L1 ''paperlib'' = Some (LTable 2)
           \<and> table_at L1 2 = Some (lib_table paperlib)
           \<and> (let r = snd (paper_main rt paper_bytecode argc_in argv_in);
                  log = api_log (lua r)
              in lua r =
                   (if status = LUA_ERRSYNTAX rt then logged L1 (CheckString (- 1))
                    else if status = LUA_ERRMEM rt then L1
                    else if status = LUA_OK rt
                      then (case lua_call rt L1 0 0 of Ok L2 \<Rightarrow> L2 | Raise e L2 \<Rightarrow> L2)
                    else L1)
                 \<and> takeWhile (\<lambda>c. c \<noteq> LoadBuffer ''paper'') log = api_log Lb
                 \<and> precedes OpenLibs (LoadBuffer ''paper'') log
                 \<and> precedes (SetTable (- 3)) (LoadBuffer ''paper'') log
                 \<and> precedes (LoadBuffer ''paper'') (Call 0 0) log)))
   \<and> (\<exists>Lb. bind (lua_prepare (luaL_openlibs luaL_newstate) luaopen_chevlib ''chevlib'')
              (\<lambda>L. lua_prepare L (luaopen_inotify inotifylib) ''inotify'') = Ok Lb
      \<and> \<not> stack_overrun Lb
      \<and> require Lb ''chevlib'' = Some (LTable 2)
      \<and> table_at Lb 2 = Some (lib_table chevlib)
      \<and> require Lb ''inotify'' = Some (LTable 3)
      \<and> table_at Lb 3 = Some (lib_table inotifylib)
      \<and> OpenLibs \<in> set (api_log Lb)
      \<and> \<not> list_ex is_call (api_log Lb)
      \<and> (case luaL_loadbuffer rt Lb cheveret_lc (length cheveret_lc) ''cheveret'' of
           (status, L1) \<Rightarrow>
             api_log L1 = api_log Lb @ [LoadBuffer ''cheveret'']
           \<and> \<not> stack_overrun L1
           \<and> require L1 ''chevlib'' = Some (LTable 2)
           \<and> table_at L1 2 = Some (lib_table chevlib)
           \<and> require L1 ''inotify'' = Some (LTable 3)
           \<and> table_at L1 3 = Some (lib_table inotifylib)
           \<and> (let r = cheveret_main rt inotifylib cheveret_lc argc_in argv_in;
                  log = api_log (lua r)
              in lua r =
                   (if status = LUA_ERRSYNTAX rt then logged L1 (CheckString (- 1))
                    else if status = LUA_ERRMEM rt then L1
                    else (case lua_call rt L1 0 0 of Ok L2 \<Rightarrow> L2 | Raise e L2 \<Rightarrow> L2))
                 \<and> takeWhile (\<lambda>c. c \<noteq> LoadBuffer ''cheveret'') log = api_log Lb
                 \<and> precedes OpenLibs (LoadBuffer ''cheveret'') log
                 \<and> precedes (SetTable (- 3)) (LoadBuffer ''cheveret'') log
                 \<and> precedes (LoadBuffer ''cheveret'') (Call 0 0) log)))"
proof (rule conjI)
  obtain status L1 where
    ld: "luaL_loadbuffer rt
           \<lparr>stack = [], slots = LUA_MINSTACK, stack_overrun = False,
            globals = [''package'' \<mapsto> LTable 1],
            heap = [[LString ''package'' \<mapsto> LTable 1, LString ''paperlib'' \<mapsto> LTable 2],
                    [LString ''loaded'' \<mapsto> LTable 0], lib_table paperlib],
            loaded_cache = Some 0,
            api_log = [NewState, OpenLibs] @ boot_log ''paperlib'' paperlib\<rparr>
           paper_bytecode (length paper_bytecode) ''paper'' = (status, L1)"
    by force
  note st = paper_main_state [OF paper_boot ld, of argc_in argv_in]
  note L1 = loadbuffer_state [OF ld]
  show "\<exists>Lb. paper_register (luaL_openlibs luaL_newstate) = Ok Lb
      \<and> \<not> stack_overrun Lb
      \<and> require Lb ''paperlib'' = Some (LTable 2)
      \<and> table_at Lb 2 = Some (lib_table paperlib)
      \<and> OpenLibs \<in> set (api_log Lb)
      \<and> \<not> list_ex is_call (api_log Lb)
      \<and> (case luaL_loadbuffer rt Lb paper_bytecode (length paper_bytecode) ''paper'' of
           (status, L1) \<Rightarrow>
             api_log L1 = api_log Lb @ [LoadBuffer ''paper'']
           \<and> \<not> stack_overrun L1
           \<and> require L1 ''paperlib'' = Some (LTable 2)
           \<and> table_at L1 2 = Some (lib_table paperlib)
           \<and> (let r = snd (paper_main rt paper_bytecode argc_in argv_in);
                  log = api_log (lua r)
              in lua r =
                   (if status = LUA_ERRSYNTAX rt then logged L1 (CheckString (- 1))
                    else if status = LUA_ERRMEM rt then L1
                    else if status = LUA_OK rt
                      then (case lua_call rt L1 0 0 of Ok L2 \<Rightarrow> L2 | Raise e L2 \<Rightarrow> L2)
                    else L1)
                 \<and> takeWhile (\<lambda>c. c \<noteq> LoadBuffer ''paper'') log = api_log Lb
                 \<and> precedes OpenLibs (LoadBuffer ''paper'') log
                 \<and> precedes (SetTable (- 3)) (LoadBuffer ''paper'') log
                 \<and> precedes (LoadBuffer ''paper'') (Call 0 0) log))"
    unfolding paper_boot
    apply (rule exI, rule conjI, rule refl)
    unfolding ld prod.case Let_def st [symmetric] paper_main_log
    using L1
    by (simp add: require_def table_at_def precedes_def boot_log_def push_def logged_def
        LUA_MINSTACK_def Let_def)
next
  obtain status L1 where
    ld: "luaL_loadbuffer rt
           \<lparr>stack = [], slots = LUA_MINSTACK, stack_overrun = False,
            globals = [''package'' \<mapsto> LTable 1],
            heap = [[LString ''package'' \<mapsto> LTable 1, LString ''chevlib'' \<mapsto> LTable 2,
                     LString ''inotify'' \<mapsto> LTable 3],
                    [LString ''loaded'' \<mapsto> LTable 0], lib_table chevlib,
                    lib_table inotifylib],
            loaded_cache = Some 0,
            api_log = [NewState, OpenLibs] @ boot_log ''chevlib'' chevlib
                        @ boot_log ''inotify'' inotifylib\<rparr>
           cheveret_lc (length cheveret_lc) ''cheveret'' = (status, L1)"
    by force
  note st = cheveret_main_state [OF cheveret_boot ld, of argc_in argv_in]
  note L1 = loadbuffer_state [OF ld]
  show "\<exists>Lb. bind (lua_prepare (luaL_openlibs luaL_newstate) luaopen_chevlib ''chevlib'')
              (\<lambda>L. lua_prepare L (luaopen_inotify inotifylib) ''inotify'') = Ok Lb
      \<and> \<not> stack_overrun Lb
      \<and> require Lb ''chevlib'' = Some (LTable 2)
      \<and> table_at Lb 2 = Some (lib_table chevlib)
      \<and> require Lb ''inotify'' = Some (LTable 3)
      \<and> table_at Lb 3 = Some (lib_table inotifylib)
      \<and> OpenLibs \<in> set (api_log Lb)
      \<and> \<not> list_ex is_call (api_log Lb)
      \<and> (case luaL_loadbuffer rt Lb cheveret_lc (length cheveret_lc) ''cheveret'' of
           (status, L1) \<Rightarrow>
             api_log L1 = api_log Lb @ [LoadBuffer ''cheveret'']
           \<and> \<not> stack_overrun L1
           \<and> require L1 ''chevlib'' = Some (LTable 2)
           \<and> table_at L1 2 = Some (lib_table chevlib)
           \<and> require L1 ''inotify'' = Some (LTable 3)
           \<and> table_at L1 3 = Some (lib_table inotifylib)
           \<and> (let r = cheveret_main rt inotifylib cheveret_lc argc_in argv_in;
                  log = api_log (lua r)
              in lua r =
                   (if status = LUA_ERRSYNTAX rt then logged L1 (CheckString (- 1))
                    else if status = LUA_ERRMEM rt then L1
                    else (case lua_call rt L1 0 0 of Ok L2 \<Rightarrow> L2 | Raise e L2 \<Rightarrow> L2))
                 \<and> takeWhile (\<lambda>c. c \<noteq> LoadBuffer ''cheveret'') log = api_log Lb
                 \<and> precedes OpenLibs (LoadBuffer ''cheveret'') log
                 \<and> precedes (SetTable (- 3)) (LoadBuffer ''cheveret'') log
                 \<and> precedes (LoadBuffer ''cheveret'') (Call 0 0) log))"
    unfolding cheveret_boot
    apply (rule exI, rule conjI, rule refl)
    unfolding ld prod.case Let_def st [symmetric] cheveret_main_log
    using L1
    by (simp add: require_def table_at_def precedes_def boot_log_def push_def logged_def
        LUA_MINSTACK_def Let_def)
qed

theorem bootstrap_order_witness:
  "(let r = snd (paper_main sample_rt ''mem'' 1 [''launcher''])
    in require (lua r) ''paperlib'' = Some (LTable 2)
       \<and> table_at (lua r) 2 = Some (lib_table paperlib)
       \<and> stack (lua r) = [LString ''not enough memory'']
       \<and> precedes OpenLibs (LoadBuffer ''paper'') (api_log (lua r))
       \<and> precedes (SetTable (- 3)) (LoadBuffer ''paper'') (api_log (lua r)))
   \<and> (let r = snd (paper_main sample_rt ''ok'' 1 [''launcher''])
      in require (lua r) ''paperlib'' = Some (LTable 2)
         \<and> stack (lua r) = []
         \<and> precedes (LoadBuffer ''paper'') (Call 0 0) (api_log (lua r))
         \<and> Call 0 0 \<in> set (api_log (lua r)))
   \<and> (let r = cheveret_main sample_rt [] ''ok'' 1 [''launcher'']
      in require (lua r) ''chevlib'' = Some (LTable 2)
         \<and> require (lua r) ''inotify'' = Some (LTable 3)
         \<and> stack (lua r) = []
         \<and> precedes (SetTable (- 3)) (LoadBuffer ''cheveret'') (api_log (lua r))
         \<and> precedes (LoadBuffer ''cheveret'') (Call 0 0) (api_log (lua r))
         \<and> Call 0 0 \<in> set (api_log (lua r)))"
  using bootstrap_order [where rt = sample_rt and paper_bytecode = "''mem''" and argc_in = 1
      and argv_in = "[''launcher'']" and cheveret_lc = "''ok''" and inotifylib = "[]"]
    bootstrap_order [where rt = sample_rt and paper_bytecode = "''ok''" and argc_in = 1
      and argv_in = "[''launcher'']" and cheveret_lc = "''ok''" and inotifylib = "[]"]
  unfolding paper_boot cheveret_boot
  by (simp add: luaL_loadbuffer_def sample_rt_def Let_def lua_call_def push_def logged_def
      require_def table_at_def adjust_results_def precedes_def boot_log_def)



text \<open>
  C9. In the calling process (where \<^verbatim>\<open>fork\<close> returned non-zero: the child's pid, or -1)
  a spawn with string arguments returns no result; its working directory is unchanged,
  the only system call it made is the \<^verbatim>\<open>fork\<close> (it does not wait), and the stack, the
  globals and the tables of the interpreter are unchanged (no handle to the child is
  kept).
  Nothing is pushed.
\<close>

theorem parent_unchanged_by_spawn:
  assumes parent: "fork_returns k \<noteq> 0"
    and args: "stack L = LString dir # LString bin # rest" "stack L1 = LString cmd # rest1"
  shows "(\<exists>p' L'. forkcdexec_lua BUFSIZ k p L = Return p' L' 0
            \<and> results (L', 0) = []
            \<and> cwd p' = cwd p \<and> new_syscalls p p' = [SysFork]
            \<and> stack L' = stack L \<and> globals L' = globals L \<and> heap L' = heap L
            \<and> loaded_cache L' = loaded_cache L
            \<and> slots L' = slots L \<and> stack_overrun L' = stack_overrun L)
       \<and> (\<exists>p' L'. forkexec_lua BUFSIZ k p L1 = Return p' L' 0
            \<and> results (L', 0) = []
            \<and> cwd p' = cwd p \<and> new_syscalls p p' = [SysFork]
            \<and> stack L' = stack L1 \<and> globals L' = globals L1 \<and> heap L' = heap L1
            \<and> loaded_cache L' = loaded_cache L1
            \<and> slots L' = slots L1 \<and> stack_overrun L' = stack_overrun L1)"
  by (simp add: forkcdexec_parent [OF args(1) parent] forkexec_parent [OF args(2) parent]
      results_def new_syscalls_def logged_def)

theorem parent_unchanged_by_spawn_witness:
  "(\<exists>p' L'. forkcdexec_lua 8192 (sample_os 4711) sample_proc
               (called_with [LString ''/tmp'', LString ''touch marker'']) = Return p' L' 0
       \<and> results (L', 0) = []
       \<and> cwd p' = ''/home/user'' \<and> new_syscalls sample_proc p' = [SysFork]
       \<and> stack L' = [LString ''/tmp'', LString ''touch marker''])
   \<and> (\<exists>p' L'. forkexec_lua 8192 (sample_os (- 1)) sample_proc
               (called_with [LString ''xdg-open .'']) = Return p' L' 0
       \<and> results (L', 0) = []
       \<and> cwd p' = ''/home/user'' \<and> new_syscalls sample_proc p' = [SysFork]
       \<and> stack L' = [LString ''xdg-open .''])"
proof -
  have parent: "fork_returns (sample_os 4711) \<noteq> 0" "fork_returns (sample_os (- 1)) \<noteq> 0"
    by (simp_all add: sample_os_def)
  have args: "stack (called_with [LString ''/tmp'', LString ''touch marker'']) =
      LString ''/tmp'' # LString ''touch marker'' # []"
    "stack (called_with [LString ''xdg-open .'']) = LString ''xdg-open .'' # []"
    by (simp_all add: called_with_def)
  have here: "cwd sample_proc = ''/home/user''"
    by (simp add: sample_proc_def)
  from parent_unchanged_by_spawn [OF parent(1) args, of 8192 sample_proc]
    parent_unchanged_by_spawn [OF parent(2) args, of 8192 sample_proc]
  show ?thesis
    unfolding args here by blast
qed

text \<open>
  C10. The child copies the command with \<^verbatim>\<open>strcpy\<close> into \<open>program\<close>, an array of \<open>BUFSIZ\<close>
  characters. In both launchers the copy writes past the end of the array if and only
  if the C string and its NUL take more than \<open>BUFSIZ\<close> characters, so every command
  shorter than \<open>BUFSIZ\<close> is copied in bounds. No check comes first: in no process, child
  or parent, does a spawn with string arguments raise an error, whatever their length.
\<close>

theorem command_length_limit:
  assumes child: "fork_returns k = 0"
    and args: "stack L = LString dir # LString bin # rest" "stack L1 = LString cmd # rest1"
  shows "((\<exists>p'. forkexec_lua BUFSIZ k p L1 = Overflow p') \<longleftrightarrow> \<not> strlen cmd + 1 \<le> BUFSIZ)
       \<and> ((\<exists>p'. forkcdexec_lua BUFSIZ k p L = Overflow p') \<longleftrightarrow> \<not> strlen bin + 1 \<le> BUFSIZ)
       \<and> (strlen cmd < BUFSIZ \<longrightarrow> (\<forall>p'. forkexec_lua BUFSIZ k p L1 \<noteq> Overflow p'))
       \<and> (strlen bin < BUFSIZ \<longrightarrow> (\<forall>p'. forkcdexec_lua BUFSIZ k p L \<noteq> Overflow p'))
       \<and> (\<forall>e L'. forkexec_lua BUFSIZ k' p L1 \<noteq> Error e L')
       \<and> (\<forall>e L'. forkcdexec_lua BUFSIZ k' p L \<noteq> Error e L')"
proof -
  have 1: "(\<exists>p'. forkexec_lua BUFSIZ k p L1 = Overflow p') \<longleftrightarrow> \<not> strlen cmd + 1 \<le> BUFSIZ"
  proof (cases "strlen cmd < BUFSIZ")
    case True
    then show ?thesis
      by (simp add: forkexec_child [OF args(2) child] Let_def)
  next
    case False
    then show ?thesis
      by (simp add: forkexec_child_overflow [OF args(2) child])
  qed
  have 2: "(\<exists>p'. forkcdexec_lua BUFSIZ k p L = Overflow p') \<longleftrightarrow> \<not> strlen bin + 1 \<le> BUFSIZ"
  proof (cases "strlen bin < BUFSIZ")
    case True
    then show ?thesis
      by (simp add: forkcdexec_child [OF args(1) child] Let_def split: option.splits)
  next
    case False
    then show ?thesis
      by (simp add: forkcdexec_child_overflow [OF args(1) child])
  qed
  have 3: "\<forall>e L'. forkexec_lua BUFSIZ k' p L1 \<noteq> Error e L'"
    using args(2)
    by (simp add: forkexec_lua_def checkstring_arg1 fork_def Let_def exit_call_def
        split: option.splits prod.splits)
  have 4: "\<forall>e L'. forkcdexec_lua BUFSIZ k' p L \<noteq> Error e L'"
    using args(1)
    by (simp add: forkcdexec_lua_def checkstring_arg1 checkstring_arg2 stack_logged fork_def
        Let_def exit_call_def split: option.splits prod.splits)
  from 1 have 5: "strlen cmd < BUFSIZ \<longrightarrow> (\<forall>p'. forkexec_lua BUFSIZ k p L1 \<noteq> Overflow p')"
    by auto
  from 2 have 6: "strlen bin < BUFSIZ \<longrightarrow> (\<forall>p'. forkcdexec_lua BUFSIZ k p L \<noteq> Overflow p')"
    by auto
  from 1 2 3 4 5 6 show ?thesis by blast
qed

theorem command_length_limit_witness:
  "(\<exists>p'. forkexec_lua 12 (sample_os 0) sample_proc (called_with [LString ''touch marker''])
            = Overflow p')
   \<and> (\<forall>p'. forkexec_lua 13 (sample_os 0) sample_proc (called_with [LString ''touch marker''])
            \<noteq> Overflow p')
   \<and> (\<exists>p'. forkcdexec_lua 12 (sample_os 0) sample_proc
            (called_with [LString ''/tmp'', LString ''touch marker'']) = Overflow p')
   \<and> (\<forall>p'. forkcdexec_lua 13 (sample_os 0) sample_proc
            (called_with [LString ''/tmp'', LString ''touch marker'']) \<noteq> Overflow p')"
proof -
  have child: "fork_returns (sample_os 0) = 0"
    by (simp add: sample_os_def)
  have args: "stack (called_with [LString ''/tmp'', LString ''touch marker'']) =
      LString ''/tmp'' # LString ''touch marker'' # []"
    "stack (called_with [LString ''touch marker'']) = LString ''touch marker'' # []"
    by (simp_all add: called_with_def)
  have len: "strlen ''touch marker'' = 12"
    by (simp add: strlen_def c_str_def NUL_def)
  from command_length_limit [OF child args, of 12 sample_proc]
    command_length_limit [OF child args, of 13 sample_proc]
  show ?thesis
    unfolding len by simp
qed

end
